theory Spec2Isabelle
  imports Complex_Main
begin

section \<open>The canvas hook of the live player: data model\<close>

text \<open>
  The development embeds the hook \<^verbatim>\<open>useTwickCanvas\<close> of
  \<^verbatim>\<open>live-player.tsx\<close>: its mutable refs become one record that every operation
  takes and returns, an exception becomes a value, and a call of the optional callback
  \<^verbatim>\<open>onCanvasOperation\<close> becomes an entry of a list of notifications.
  A JavaScript number is modelled as a \<^typ>\<open>real\<close>: arithmetic is exact, and there is
  neither rounding error nor an infinity. A numeric field that may be absent is a
  \<^typ>\<open>real option\<close>, where \<^term>\<open>None\<close> is \<^verbatim>\<open>undefined\<close> (for a computed
  value: not a number).
\<close>

record dimensions =
  dim_width :: real
  dim_height :: real

record canvas_metadata =
  cm_width :: real
  cm_height :: real
  cm_aspectRatio :: real
  cm_scaleX :: real
  cm_scaleY :: real

record position =
  pos_x :: real
  pos_y :: real

text \<open>The fields of \<^verbatim>\<open>element.props\<close> that the hook reads or writes.\<close>

record props =
  props_x :: "real option"
  props_y :: "real option"
  props_rotation :: "real option"
  props_radius :: "real option"
  props_width :: "real option"
  props_height :: "real option"
  props_playbackRate :: "real option"
  props_time :: "real option"

record frame =
  frame_rotation :: "real option"
  frame_size :: "real \<times> real"
  frame_x :: "real option"
  frame_y :: "real option"

record frame_effect_props =
  fep_framePosition :: "position option"
  fep_frameSize :: "real \<times> real"

text \<open>
  A frame effect has an identifier, the window of time in which it is active, and its
  \<^verbatim>\<open>props\<close>. The two further fields are the
  properties \<^verbatim>\<open>framePosition\<close> and \<^verbatim>\<open>frameSize\<close> of the effect object itself
  (not of its props), which only \<^verbatim>\<open>handleMouseUp\<close> writes.
\<close>

record frame_effect =
  fe_id :: string
  fe_s :: real
  fe_e :: real
  fe_props :: frame_effect_props
  fe_framePosition :: "position option"
  fe_frameSize :: "(real \<times> real) option"

record element =
  el_id :: string
  el_type :: string
  el_s :: "real option"
  el_timelineType :: string
  el_props :: props
  el_frame :: "frame option"
  el_frameEffects :: "frame_effect list option"

record caption_props =
  cp_applyToAll :: bool
  cp_x :: "real option"
  cp_y :: "real option"

text \<open>
  A Fabric object as the hook sees it: the identifier it carries (if any), its Fabric
  type (\<^verbatim>\<open>group\<close>, \<^verbatim>\<open>text\<close>, \<^verbatim>\<open>circle\<close>, ...) and its geometry.
\<close>

record fabric_object =
  fo_id :: "string option"
  fo_type :: string
  fo_left :: real
  fo_top :: real
  fo_scaleX :: real
  fo_scaleY :: real
  fo_angle :: real
  fo_width :: real
  fo_height :: real
  fo_evented :: bool
  fo_zIndex :: "real option"

record fabric_canvas =
  fc_objects :: "fabric_object list"
  fc_backgroundColor :: string
  fc_context :: bool

record transform =
  tr_action :: string
  tr_original_left :: real
  tr_original_top :: real

record mouse_event =
  ev_target :: "fabric_object option"
  ev_transform :: "transform option"

datatype exn = TypeError | Thrown string

datatype canvas_operation = ITEM_SELECTED | ITEM_UPDATED | CAPTION_PROPS_UPDATED

datatype operation_data =
  ElementData "element option"
| CaptionData "element option" caption_props

type_synonym notification = "canvas_operation \<times> operation_data"

text \<open>
  The refs of the hook. \<^verbatim>\<open>twickCanvas\<close> is the canvas the handlers act on: the
  state variable of that name and \<^verbatim>\<open>twickCanvasRef\<close> hold the same Fabric canvas, and
  the model keeps it once. What the hook prints on the console is not modelled.
\<close>

record hook_state =
  twickCanvas :: "fabric_canvas option"
  elementMap :: "string \<rightharpoonup> element"
  elementFrameMap :: "string \<rightharpoonup> frame_effect"
  videoSizeRef :: dimensions
  canvasResolutionRef :: dimensions
  captionPropsRef :: "caption_props option"
  canvasMetadataRef :: canvas_metadata

text \<open>The calls the hook makes into \<^verbatim>\<open>../components/elements\<close>, with their arguments.\<close>

datatype add_call =
  AddVideoElement element nat canvas_metadata "frame_effect option" real
| AddImageElement element nat canvas_metadata
| AddRectElement element nat canvas_metadata
| AddCircleElement element nat canvas_metadata
| AddTextElement element nat canvas_metadata
| AddCaptionElement element nat "caption_props option" canvas_metadata
| AddBackgroundColor element nat canvas_metadata

text \<open>
  The helpers of \<^verbatim>\<open>../helpers/canvas.util\<close> and the element constructors of
  \<^verbatim>\<open>../components/elements\<close> are imported by the hook and are not part of it: they
  are parameters of the model. A constructor returns the canvas as it left it and the
  exception it raised, if any.
\<close>

record helpers =
  convertToVideoPosition :: "real \<Rightarrow> real \<Rightarrow> canvas_metadata \<Rightarrow> dimensions \<Rightarrow> position"
  createCanvas :: "dimensions \<Rightarrow> dimensions \<Rightarrow> string \<Rightarrow> fabric_canvas \<times> canvas_metadata"
  getCurrentFrameEffect :: "element \<Rightarrow> real \<Rightarrow> frame_effect option"
  reorderElementsByZIndex :: "fabric_canvas \<Rightarrow> fabric_canvas"
  clearCanvas :: "fabric_canvas \<Rightarrow> fabric_canvas"
  getCanvasContext :: "fabric_canvas \<Rightarrow> bool"
  addElement :: "add_call \<Rightarrow> fabric_canvas \<Rightarrow> exn option \<times> fabric_canvas"

section \<open>JavaScript primitives\<close>

text \<open>
  \<^verbatim>\<open>Number(v.toFixed(2))\<close>: the nearest multiple of 1/100, a tie going away from zero;
  from \<open>10\<^sup>2\<^sup>1\<close> on \<^verbatim>\<open>toFixed\<close> prints the number itself.
\<close>

definition toFixed2 :: "real \<Rightarrow> real" where
  "toFixed2 v =
     (if \<bar>v\<bar> \<ge> 10 ^ 21 then v
      else sgn v * of_int \<lfloor>\<bar>v\<bar> * 100 + 1 / 2\<rfloor> / 100)"

text \<open>\<^verbatim>\<open>a * k\<close> for a field \<open>a\<close> that may be absent: the product of \<^verbatim>\<open>undefined\<close> is not a number.\<close>

definition js_mul :: "real option \<Rightarrow> real \<Rightarrow> real option" where
  "js_mul a k = map_option (\<lambda>v. v * k) a"

text \<open>\<^verbatim>\<open>a || d\<close> for a number: \<^verbatim>\<open>undefined\<close> and \<open>0\<close> are falsy.\<close>

definition or_default :: "real option \<Rightarrow> real \<Rightarrow> real" where
  "or_default a d = (case a of None \<Rightarrow> d | Some v \<Rightarrow> if v = 0 then d else v)"

text \<open>
  The property key of \<^verbatim>\<open>elementMap.current[elementId]\<close>: an identifier that is
  \<^verbatim>\<open>undefined\<close> is converted to the string of that name.
\<close>

definition property_key :: "string option \<Rightarrow> string" where
  "property_key i = (case i of None \<Rightarrow> ''undefined'' | Some k \<Rightarrow> k)"

text \<open>\<^verbatim>\<open>onCanvasOperation?.(op, data)\<close>: the call is made when the callback was supplied.\<close>

definition emit :: "bool \<Rightarrow> canvas_operation \<Rightarrow> operation_data \<Rightarrow> notification list" where
  "emit onCanvasOperation op d = (if onCanvasOperation then [(op, d)] else [])"

section \<open>The gesture handler\<close>

text \<open>What a handler leaves behind: the exception it raised (if any), the refs, and the
  calls of \<^verbatim>\<open>onCanvasOperation\<close> it made, in order.\<close>

record outcome =
  out_exn :: "exn option"
  out_state :: hook_state
  out_notes :: "notification list"

definition returns :: "hook_state \<Rightarrow> notification list \<Rightarrow> outcome" where
  "returns s ns = \<lparr>out_exn = None, out_state = s, out_notes = ns\<rparr>"

definition throws :: "exn \<Rightarrow> hook_state \<Rightarrow> outcome" where
  "throws e s = \<lparr>out_exn = Some e, out_state = s, out_notes = []\<rparr>"

text \<open>The first test of \<^verbatim>\<open>handleMouseUp\<close>: a drag that ends where it began.\<close>

definition unmoved_drag :: "mouse_event \<Rightarrow> fabric_object \<Rightarrow> bool" where
  "unmoved_drag ev object =
     (case ev_transform ev of
        None \<Rightarrow> False
      | Some t \<Rightarrow> tr_action t = ''drag'' \<and>
          fo_left object = tr_original_left t \<and> fo_top object = tr_original_top t)"

text \<open>The labels of the \<^verbatim>\<open>switch\<close> on \<^verbatim>\<open>event.transform?.action\<close>.\<close>

definition switch_action :: "mouse_event \<Rightarrow> bool" where
  "switch_action ev =
     (case ev_transform ev of
        None \<Rightarrow> False
      | Some t \<Rightarrow> tr_action t \<in> set [''drag'', ''scale'', ''scaleX'', ''scaleY'', ''rotate''])"

text \<open>The caption branch.\<close>

definition caption_gesture ::
  "bool \<Rightarrow> hook_state \<Rightarrow> string \<Rightarrow> element \<Rightarrow> position \<Rightarrow> outcome" where
  "caption_gesture cb s elementId el p =
     (case captionPropsRef s of
        Some cp \<Rightarrow>
          if cp_applyToAll cp
          then returns s (emit cb CAPTION_PROPS_UPDATED
                 (CaptionData (Some el) (cp\<lparr>cp_x := Some (pos_x p), cp_y := Some (pos_y p)\<rparr>)))
          else
            (let el' = el\<lparr>el_props := (el_props el)\<lparr>props_x := Some (pos_x p), props_y := Some (pos_y p)\<rparr>\<rparr>;
                 s' = s\<lparr>elementMap := (elementMap s)(elementId \<mapsto> el')\<rparr>
             in returns s' (emit cb ITEM_UPDATED (ElementData (elementMap s' elementId))))
      | None \<Rightarrow>
          (let el' = el\<lparr>el_props := (el_props el)\<lparr>props_x := Some (pos_x p), props_y := Some (pos_y p)\<rparr>\<rparr>;
               s' = s\<lparr>elementMap := (elementMap s)(elementId \<mapsto> el')\<rparr>
           in returns s' (emit cb ITEM_UPDATED (ElementData (elementMap s' elementId)))))"

text \<open>The branch of a Fabric group whose element has an active frame effect.\<close>

definition frame_effect_gesture ::
  "hook_state \<Rightarrow> string \<Rightarrow> element \<Rightarrow> fabric_object \<Rightarrow> position \<Rightarrow> frame_effect \<Rightarrow> hook_state" where
  "frame_effect_gesture s elementId el object p currentFrameEffect =
     (let updatedFrameSize =
            (fst (fep_frameSize (fe_props currentFrameEffect)) * fo_scaleX object,
             snd (fep_frameSize (fe_props currentFrameEffect)) * fo_scaleY object);
          el' = el\<lparr>el_frameEffects := Some (map
                  (\<lambda>frameEffect.
                     if fe_id frameEffect = fe_id currentFrameEffect
                     then frameEffect\<lparr>fe_props := (fe_props frameEffect)
                            \<lparr>fep_framePosition := Some p, fep_frameSize := updatedFrameSize\<rparr>\<rparr>
                     else frameEffect)
                  (case el_frameEffects el of None \<Rightarrow> [] | Some fes \<Rightarrow> fes))\<rparr>
      in s\<lparr>elementMap := (elementMap s)(elementId \<mapsto> el'),
           elementFrameMap := (elementFrameMap s)(elementId \<mapsto>
               currentFrameEffect\<lparr>fe_framePosition := Some p,
                                  fe_frameSize := Some updatedFrameSize\<rparr>)\<rparr>)"

text \<open>The branch of a Fabric group without an active frame effect: the element's own frame.\<close>

definition frame_gesture ::
  "hook_state \<Rightarrow> string \<Rightarrow> element \<Rightarrow> fabric_object \<Rightarrow> position \<Rightarrow> frame \<Rightarrow> hook_state" where
  "frame_gesture s elementId el object p fr =
     (let updatedFrameSize =
            (fst (frame_size fr) * fo_scaleX object, snd (frame_size fr) * fo_scaleY object)
      in s\<lparr>elementMap := (elementMap s)(elementId \<mapsto>
             el\<lparr>el_frame := Some (fr\<lparr>frame_rotation := Some (fo_angle object),
                                      frame_size := updatedFrameSize,
                                      frame_x := Some (pos_x p),
                                      frame_y := Some (pos_y p)\<rparr>)\<rparr>)\<rparr>)"

text \<open>The branches of an object that is not a group: text, circle, anything else.\<close>

definition text_gesture :: "element \<Rightarrow> fabric_object \<Rightarrow> position \<Rightarrow> element" where
  "text_gesture el object p =
     el\<lparr>el_props := (el_props el)\<lparr>props_rotation := Some (fo_angle object),
                                  props_x := Some (pos_x p), props_y := Some (pos_y p)\<rparr>\<rparr>"

definition circle_gesture :: "element \<Rightarrow> fabric_object \<Rightarrow> position \<Rightarrow> element" where
  "circle_gesture el object p =
     (let radius = map_option toFixed2 (js_mul (props_radius (el_props el)) (fo_scaleX object))
      in el\<lparr>el_props := (el_props el)\<lparr>props_rotation := Some (fo_angle object),
                                       props_radius := radius,
                                       props_height := js_mul radius 2,
                                       props_width := js_mul radius 2,
                                       props_x := Some (pos_x p), props_y := Some (pos_y p)\<rparr>\<rparr>)"

definition shape_gesture :: "element \<Rightarrow> fabric_object \<Rightarrow> position \<Rightarrow> element" where
  "shape_gesture el object p =
     el\<lparr>el_props := (el_props el)\<lparr>props_rotation := Some (fo_angle object),
           props_width := js_mul (props_width (el_props el)) (fo_scaleX object),
           props_height := js_mul (props_height (el_props el)) (fo_scaleY object),
           props_x := Some (pos_x p), props_y := Some (pos_y p)\<rparr>\<rparr>"

text \<open>
  \<^verbatim>\<open>handleMouseUp\<close>. Reading \<^verbatim>\<open>.type\<close> of a missing registry entry, or \<^verbatim>\<open>.size\<close> of
  a missing frame, raises a \<^verbatim>\<open>TypeError\<close>; nothing catches it.
\<close>

definition handleMouseUp :: "helpers \<Rightarrow> bool \<Rightarrow> hook_state \<Rightarrow> mouse_event \<Rightarrow> outcome" where
  "handleMouseUp h cb s ev =
     (case ev_target ev of
        None \<Rightarrow> returns s []
      | Some object \<Rightarrow>
          (let elementId = property_key (fo_id object) in
           if unmoved_drag ev object
           then returns s (emit cb ITEM_SELECTED (ElementData (elementMap s elementId)))
           else if switch_action ev
           then
             (let p = convertToVideoPosition h (fo_left object) (fo_top object)
                        (canvasMetadataRef s) (videoSizeRef s)
              in case elementMap s elementId of
                   None \<Rightarrow> throws TypeError s
                 | Some el \<Rightarrow>
                     if el_type el = ''caption''
                     then caption_gesture cb s elementId el p
                     else if fo_type object = ''group''
                     then
                       (case elementFrameMap s elementId of
                          Some currentFrameEffect \<Rightarrow>
                            (let s' = frame_effect_gesture s elementId el object p currentFrameEffect
                             in returns s' (emit cb ITEM_UPDATED (ElementData (elementMap s' elementId))))
                        | None \<Rightarrow>
                            (case el_frame el of
                               None \<Rightarrow> throws TypeError s
                             | Some fr \<Rightarrow>
                                 (let s' = frame_gesture s elementId el object p fr
                                  in returns s' (emit cb ITEM_UPDATED (ElementData (elementMap s' elementId))))))
                     else
                       (let el' =
                              (if fo_type object = ''text'' then text_gesture el object p
                               else if fo_type object = ''circle'' then circle_gesture el object p
                               else shape_gesture el object p);
                            s' = s\<lparr>elementMap := (elementMap s)(elementId \<mapsto> el')\<rparr>
                        in returns s' (emit cb ITEM_UPDATED (ElementData (elementMap s' elementId)))))
           else returns s []))"

section \<open>Projecting elements\<close>

text \<open>
  Modelled from the spec: the values of \<^verbatim>\<open>ELEMENT_TYPES\<close>
  (\<^verbatim>\<open>../helpers/constants\<close> is not among the sources). The spec names the kinds
  video, image, rect, circle, text, caption and background; the \<^verbatim>\<open>switch\<close> of
  \<^verbatim>\<open>addElementToCanvas\<close> has a case for the first six.
\<close>

definition ELEMENT_TYPES_VIDEO :: string where "ELEMENT_TYPES_VIDEO = ''video''"
definition ELEMENT_TYPES_IMAGE :: string where "ELEMENT_TYPES_IMAGE = ''image''"
definition ELEMENT_TYPES_RECT :: string where "ELEMENT_TYPES_RECT = ''rect''"
definition ELEMENT_TYPES_CIRCLE :: string where "ELEMENT_TYPES_CIRCLE = ''circle''"
definition ELEMENT_TYPES_TEXT :: string where "ELEMENT_TYPES_TEXT = ''text''"
definition ELEMENT_TYPES_CAPTION :: string where "ELEMENT_TYPES_CAPTION = ''caption''"

definition recognized_kinds :: "string list" where
  "recognized_kinds = [''video'', ''image'', ''rect'', ''circle'', ''text'', ''caption'', ''background'']"

text \<open>One awaited constructor call on the hook's canvas; the canvas keeps what the call did,
  also when the call raised.\<close>

definition awaited :: "helpers \<Rightarrow> add_call \<Rightarrow> hook_state \<Rightarrow> fabric_canvas \<Rightarrow> exn option \<times> hook_state" where
  "awaited h call s canvas =
     (case addElement h call canvas of (e, canvas') \<Rightarrow> (e, s\<lparr>twickCanvas := Some canvas'\<rparr>))"

text \<open>The local playback offset of a video element.\<close>

definition snapTime :: "real option \<Rightarrow> element \<Rightarrow> real" where
  "snapTime seekTime element =
     (or_default seekTime 0 - or_default (el_s element) 0) *
       or_default (props_playbackRate (el_props element)) 1 +
     or_default (props_time (el_props element)) 0"

text \<open>A media element of a scene is followed by its background colour.\<close>

definition scene_background ::
  "helpers \<Rightarrow> element \<Rightarrow> nat \<Rightarrow> exn option \<times> hook_state \<Rightarrow> exn option \<times> hook_state" where
  "scene_background h element index r =
     (case r of
        (Some e, s) \<Rightarrow> (Some e, s)
      | (None, s) \<Rightarrow>
          if el_timelineType element = ''scene''
          then (case twickCanvas s of
                  None \<Rightarrow> (None, s)
                | Some canvas \<Rightarrow>
                    awaited h (AddBackgroundColor element index (canvasMetadataRef s)) s canvas)
          else (None, s))"

text \<open>The \<^verbatim>\<open>switch\<close> of \<^verbatim>\<open>addElementToCanvas\<close> on the element's type.\<close>

definition switch_type ::
  "helpers \<Rightarrow> hook_state \<Rightarrow> fabric_canvas \<Rightarrow> element \<Rightarrow> nat \<Rightarrow> real option \<Rightarrow>
   caption_props option \<Rightarrow> exn option \<times> hook_state" where
  "switch_type h s canvas element index seekTime captionProps =
     (if el_type element = ELEMENT_TYPES_VIDEO then
        (let currentFrameEffect = getCurrentFrameEffect h element (or_default seekTime 0);
             s1 = s\<lparr>elementFrameMap := (elementFrameMap s)(el_id element := currentFrameEffect)\<rparr>
         in scene_background h element index
              (awaited h (AddVideoElement element index (canvasMetadataRef s1)
                            currentFrameEffect (snapTime seekTime element)) s1 canvas))
      else if el_type element = ELEMENT_TYPES_IMAGE then
        scene_background h element index
          (awaited h (AddImageElement element index (canvasMetadataRef s)) s canvas)
      else if el_type element = ELEMENT_TYPES_RECT then
        awaited h (AddRectElement element index (canvasMetadataRef s)) s canvas
      else if el_type element = ELEMENT_TYPES_CIRCLE then
        awaited h (AddCircleElement element index (canvasMetadataRef s)) s canvas
      else if el_type element = ELEMENT_TYPES_TEXT then
        awaited h (AddTextElement element index (canvasMetadataRef s)) s canvas
      else if el_type element = ELEMENT_TYPES_CAPTION then
        awaited h (AddCaptionElement element index captionProps (canvasMetadataRef s)) s canvas
      else (None, s))"

text \<open>
  \<^verbatim>\<open>addElementToCanvas\<close>. An exception of a constructor leaves the function before the
  registry is written. \<^verbatim>\<open>reorder\<close> is \<^verbatim>\<open>true\<close> unless the caller says otherwise.
\<close>

definition addElementToCanvas ::
  "helpers \<Rightarrow> hook_state \<Rightarrow> element \<Rightarrow> nat \<Rightarrow> bool option \<Rightarrow> real option \<Rightarrow>
   caption_props option \<Rightarrow> exn option \<times> hook_state" where
  "addElementToCanvas h s element index reorder seekTime captionProps =
     (case twickCanvas s of
        None \<Rightarrow> (None, s)
      | Some canvas \<Rightarrow>
          (case switch_type h s canvas element index seekTime captionProps of
             (Some e, s1) \<Rightarrow> (Some e, s1)
           | (None, s1) \<Rightarrow>
               (let s2 = s1\<lparr>elementMap := (elementMap s1)(el_id element \<mapsto> element)\<rparr>
                in if (case reorder of None \<Rightarrow> True | Some b \<Rightarrow> b)
                   then (None, s2\<lparr>twickCanvas := map_option (reorderElementsByZIndex h) (twickCanvas s2)\<rparr>)
                   else (None, s2))))"

section \<open>Rebuilding the scene\<close>

text \<open>
  \<^verbatim>\<open>Promise.all(elements.map(async ...))\<close> does not run the elements one after the other.
  The \<^verbatim>\<open>map\<close> runs the callback of every element, in the order of the list, up to its
  first \<^verbatim>\<open>await\<close>: that is the call of the element's constructor, and an element whose
  type has no case in the \<^verbatim>\<open>switch\<close> reaches the registry write without any
  \<^verbatim>\<open>await\<close>. The callbacks that wait are resumed later, each when the promise of its
  constructor settles, in an order the hook does not decide. A resumed callback catches
  the exception of its constructor, or calls the constructor of the background colour and
  waits again, or writes the registry and is done. The reorder follows when all are done.

  A callback that waits is the constructor call it waits for.
\<close>

fun call_element :: "add_call \<Rightarrow> element" where
  "call_element (AddVideoElement el i m cfe st) = el"
| "call_element (AddImageElement el i m) = el"
| "call_element (AddRectElement el i m) = el"
| "call_element (AddCircleElement el i m) = el"
| "call_element (AddTextElement el i m) = el"
| "call_element (AddCaptionElement el i cp m) = el"
| "call_element (AddBackgroundColor el i m) = el"

text \<open>The constructor call of the \<^verbatim>\<open>switch\<close> of \<^verbatim>\<open>addElementToCanvas\<close>, if the type
  of the element has a case there.\<close>

definition first_call ::
  "helpers \<Rightarrow> canvas_metadata \<Rightarrow> element \<Rightarrow> nat \<Rightarrow> real option \<Rightarrow> caption_props option \<Rightarrow>
   add_call option" where
  "first_call h m element index seekTime captionProps =
     (if el_type element = ELEMENT_TYPES_VIDEO then
        Some (AddVideoElement element index m
                (getCurrentFrameEffect h element (or_default seekTime 0))
                (snapTime seekTime element))
      else if el_type element = ELEMENT_TYPES_IMAGE then Some (AddImageElement element index m)
      else if el_type element = ELEMENT_TYPES_RECT then Some (AddRectElement element index m)
      else if el_type element = ELEMENT_TYPES_CIRCLE then Some (AddCircleElement element index m)
      else if el_type element = ELEMENT_TYPES_TEXT then Some (AddTextElement element index m)
      else if el_type element = ELEMENT_TYPES_CAPTION then
        Some (AddCaptionElement element index captionProps m)
      else None)"

text \<open>
  \<^verbatim>\<open>addElementToCanvas\<close> with \<^verbatim>\<open>reorder: false\<close> up to its first \<^verbatim>\<open>await\<close>: a
  video has its frame effect written before the constructor is called; an element
  without constructor is written to the registry at once.
\<close>

definition start ::
  "helpers \<Rightarrow> hook_state \<Rightarrow> element \<Rightarrow> nat \<Rightarrow> real option \<Rightarrow> caption_props option \<Rightarrow>
   hook_state \<times> add_call option" where
  "start h s element index seekTime captionProps =
     (case twickCanvas s of
        None \<Rightarrow> (s, None)
      | Some canvas \<Rightarrow>
          (let s1 = (if el_type element = ELEMENT_TYPES_VIDEO
                     then s\<lparr>elementFrameMap := (elementFrameMap s)
                            (el_id element := getCurrentFrameEffect h element (or_default seekTime 0))\<rparr>
                     else s)
           in case first_call h (canvasMetadataRef s) element index seekTime captionProps of
                Some call \<Rightarrow> (s1, Some call)
              | None \<Rightarrow> (s1\<lparr>elementMap := (elementMap s1)(el_id element \<mapsto> element)\<rparr>, None)))"

text \<open>What follows the constructor of a video or an image of a scene: the constructor of
  its background colour, with the metadata of that moment.\<close>

fun follow_up :: "add_call \<Rightarrow> canvas_metadata \<Rightarrow> add_call option" where
  "follow_up (AddVideoElement el i m cfe st) m' =
     (if el_timelineType el = ''scene'' then Some (AddBackgroundColor el i m') else None)"
| "follow_up (AddImageElement el i m) m' =
     (if el_timelineType el = ''scene'' then Some (AddBackgroundColor el i m') else None)"
| "follow_up (AddRectElement el i m) m' = None"
| "follow_up (AddCircleElement el i m) m' = None"
| "follow_up (AddTextElement el i m) m' = None"
| "follow_up (AddCaptionElement el i cp m) m' = None"
| "follow_up (AddBackgroundColor el i m) m' = None"

text \<open>
  The callback that waits for \<open>call\<close> is resumed: the exception of the constructor, the
  refs, and the call the callback waits for next, if any. The constructors are not among
  the sources; a constructor is taken to settle, and to act on the canvas at that moment.
  An exception ends the callback in its \<^verbatim>\<open>catch\<close>.
\<close>

definition resume :: "helpers \<Rightarrow> hook_state \<Rightarrow> add_call \<Rightarrow> exn option \<times> hook_state \<times> add_call option" where
  "resume h s call =
     (case twickCanvas s of
        None \<Rightarrow> (None, s, None)
      | Some canvas \<Rightarrow>
          (case awaited h call s canvas of
             (Some e, s1) \<Rightarrow> (Some e, s1, None)
           | (None, s1) \<Rightarrow>
               (case follow_up call (canvasMetadataRef s1) of
                  Some next \<Rightarrow> (None, s1, Some next)
                | None \<Rightarrow>
                    (None,
                     s1\<lparr>elementMap := (elementMap s1)(el_id (call_element call) \<mapsto> call_element call)\<rparr>,
                     None))))"

text \<open>The \<^verbatim>\<open>map\<close>: every callback up to its first \<^verbatim>\<open>await\<close>, in the order of the
  list; an empty slot is skipped. The result has the callbacks that wait, in that order.\<close>

fun start_all ::
  "helpers \<Rightarrow> hook_state \<Rightarrow> element option list \<Rightarrow> nat \<Rightarrow> real \<Rightarrow> caption_props option \<Rightarrow>
   hook_state \<times> add_call list" where
  "start_all h s [] index seekTime captionProps = (s, [])"
| "start_all h s (None # elements) index seekTime captionProps =
     start_all h s elements (Suc index) seekTime captionProps"
| "start_all h s (Some element # elements) index seekTime captionProps =
     (case start h s element index (Some seekTime) captionProps of
        (s1, waiting) \<Rightarrow>
          (case start_all h s1 elements (Suc index) seekTime captionProps of
             (s2, pending) \<Rightarrow>
               (s2, (case waiting of None \<Rightarrow> [] | Some call \<Rightarrow> [call]) @ pending)))"

text \<open>
  The order in which the promises settle is a parameter, the schedule: its head says
  which of the waiting callbacks is resumed next (counted modulo their number; the first
  one when the schedule is used up), so every order has a schedule.
\<close>

definition pick :: "nat list \<Rightarrow> nat \<Rightarrow> nat" where
  "pick schedule n = (case schedule of [] \<Rightarrow> 0 | k # _ \<Rightarrow> k mod n)"

definition after_resume :: "add_call list \<Rightarrow> nat \<Rightarrow> add_call option \<Rightarrow> add_call list" where
  "after_resume pending k next =
     (case next of
        None \<Rightarrow> take k pending @ drop (Suc k) pending
      | Some call \<Rightarrow> pending[k := call])"

text \<open>The awaits a waiting callback still has before it: two at most for the constructor
  of an element, one for the constructor of a background colour.\<close>

fun awaits_left :: "add_call \<Rightarrow> nat" where
  "awaits_left (AddBackgroundColor el i m) = 1"
| "awaits_left (AddVideoElement el i m cfe st) = 2"
| "awaits_left (AddImageElement el i m) = 2"
| "awaits_left (AddRectElement el i m) = 2"
| "awaits_left (AddCircleElement el i m) = 2"
| "awaits_left (AddTextElement el i m) = 2"
| "awaits_left (AddCaptionElement el i cp m) = 2"

text \<open>
  The callbacks are resumed until none waits. The result has the refs and the constructor
  calls in the order they settled, each with the exception it raised.
\<close>

function settle_all ::
  "helpers \<Rightarrow> nat list \<Rightarrow> hook_state \<Rightarrow> add_call list \<Rightarrow> hook_state \<times> (add_call \<times> exn option) list" where
  "settle_all h schedule s pending =
     (if pending = [] then (s, [])
      else
        (case resume h s (pending ! pick schedule (length pending)) of
           (e, s1, next) \<Rightarrow>
             (case settle_all h (tl schedule) s1
                     (after_resume pending (pick schedule (length pending)) next) of
                (s2, settled) \<Rightarrow>
                  (s2, (pending ! pick schedule (length pending), e) # settled))))"
  by pat_completeness auto

termination
proof (relation "measure (\<lambda>(h, schedule, s, pending). sum_list (map awaits_left pending))")
  show "wf (measure (\<lambda>(h, schedule, s, pending). sum_list (map awaits_left pending)))"
    by simp
next
  fix h :: helpers and schedule :: "nat list" and s :: hook_state and pending :: "add_call list"
    and e :: "exn option" and r' :: "hook_state \<times> add_call option"
    and s1 :: hook_state and "next" :: "add_call option"
  assume ne: "pending \<noteq> []"
    and r1: "(e, r') = resume h s (pending ! pick schedule (length pending))"
    and r2: "(s1, next) = r'"
  let ?k = "pick schedule (length pending)"
  have k: "?k < length pending"
    using ne by (cases schedule) (simp_all add: pick_def)
  have split: "pending = take ?k pending @ (pending ! ?k) # drop (Suc ?k) pending"
    using k by (rule id_take_nth_drop)
  have total: "sum_list (map awaits_left pending) =
                 sum_list (map awaits_left (take ?k pending)) + awaits_left (pending ! ?k) +
                 sum_list (map awaits_left (drop (Suc ?k) pending))"
    by (subst split) simp
  have nxt: "next = None \<or>
             (\<exists>el i m. next = Some (AddBackgroundColor el i m) \<and> awaits_left (pending ! ?k) = 2)"
    using r1 r2
    by (cases "pending ! ?k")
      (auto simp: resume_def split: option.splits prod.splits if_splits)
  have pos: "0 < awaits_left (pending ! ?k)" by (cases "pending ! ?k") simp_all
  have "sum_list (map awaits_left (after_resume pending ?k next)) <
          sum_list (map awaits_left pending)"
  proof (cases "next")
    case None
    then show ?thesis using total pos by (simp add: after_resume_def)
  next
    case (Some call)
    with nxt obtain el i m where c: "call = AddBackgroundColor el i m"
      and two: "awaits_left (pending ! ?k) = 2" by auto
    have "pending[?k := call] = take ?k pending @ call # drop (Suc ?k) pending"
      using k by (rule upd_conv_take_nth_drop)
    then show ?thesis using Some total two c by (simp add: after_resume_def)
  qed
  then show "((h, tl schedule, s1, after_resume pending ?k next), (h, schedule, s, pending))
               \<in> measure (\<lambda>(h, schedule, s, pending). sum_list (map awaits_left pending))"
    by simp
qed

text \<open>\<^verbatim>\<open>Promise.all(elements.map(...))\<close>: the \<^verbatim>\<open>map\<close>, then the resumptions.\<close>

definition promise_all ::
  "helpers \<Rightarrow> nat list \<Rightarrow> hook_state \<Rightarrow> element option list \<Rightarrow> real \<Rightarrow> caption_props option \<Rightarrow>
   hook_state \<times> (add_call \<times> exn option) list" where
  "promise_all h schedule s elements seekTime captionProps =
     (case start_all h s elements 0 seekTime captionProps of
        (s1, pending) \<Rightarrow> settle_all h schedule s1 pending)"

text \<open>The part of \<^verbatim>\<open>setCanvasElements\<close> that clears the canvas and puts its background
  colour back; an empty colour is falsy and is not put back.\<close>

definition clean :: "helpers \<Rightarrow> fabric_canvas \<Rightarrow> fabric_canvas" where
  "clean h canvas =
     (let backgroundColor = fc_backgroundColor canvas;
          cleared = clearCanvas h canvas
      in if backgroundColor \<noteq> [] then cleared\<lparr>fc_backgroundColor := backgroundColor\<rparr> else cleared)"

text \<open>\<^verbatim>\<open>setCanvasElements\<close>, for the schedule in which the constructors settle.\<close>

definition setCanvasElements ::
  "helpers \<Rightarrow> nat list \<Rightarrow> hook_state \<Rightarrow> element option list \<Rightarrow> real option \<Rightarrow>
   caption_props option \<Rightarrow> bool option \<Rightarrow> hook_state" where
  "setCanvasElements h schedule s elements seekTime captionProps cleanAndAdd =
     (case twickCanvas s of
        None \<Rightarrow> s
      | Some canvas \<Rightarrow>
          if \<not> getCanvasContext h canvas then s
          else
            (let s1 = (if (case cleanAndAdd of None \<Rightarrow> False | Some b \<Rightarrow> b) \<and> getCanvasContext h canvas
                       then s\<lparr>twickCanvas := Some (clean h canvas)\<rparr> else s);
                 s2 = s1\<lparr>captionPropsRef := captionProps\<rparr>;
                 s3 = fst (promise_all h schedule s2 elements
                             (case seekTime of None \<Rightarrow> 0 | Some t \<Rightarrow> t) captionProps)
             in s3\<lparr>twickCanvas := map_option (reorderElementsByZIndex h) (twickCanvas s3)\<rparr>))"

text \<open>The canvas after the constructor calls of a list, each acting on what the one before
  left.\<close>

definition apply_calls :: "helpers \<Rightarrow> fabric_canvas \<Rightarrow> add_call list \<Rightarrow> fabric_canvas" where
  "apply_calls h canvas calls = foldl (\<lambda>c call. snd (addElement h call c)) canvas calls"

section \<open>Canvas metadata\<close>

text \<open>
  \<^verbatim>\<open>onVideoSizeChange\<close>. A division by a zero dimension gives an infinity or not a number
  in JavaScript; the model has no such value and returns \<^term>\<open>None\<close> there.
\<close>

definition onVideoSizeChange :: "hook_state \<Rightarrow> dimensions option \<Rightarrow> hook_state option" where
  "onVideoSizeChange s videoSize =
     (case videoSize of
        None \<Rightarrow> Some s
      | Some v \<Rightarrow>
          if dim_width v = 0 \<or> dim_height v = 0 then None
          else Some (s\<lparr>videoSizeRef := v,
                       canvasMetadataRef := (canvasMetadataRef s)
                         \<lparr>cm_scaleX := cm_width (canvasMetadataRef s) / dim_width v,
                          cm_scaleY := cm_height (canvasMetadataRef s) / dim_height v\<rparr>\<rparr>))"

text \<open>The arguments of \<^verbatim>\<open>buildCanvas\<close> that the metadata and the scene depend on; the
  selection and touch settings are only handed on to \<^verbatim>\<open>createCanvas\<close>.\<close>

record canvas_props =
  bc_videoSize :: dimensions
  bc_canvasSize :: dimensions
  bc_canvasRef :: bool
  bc_backgroundColor :: "string option"
  bc_forceBuild :: "bool option"
  bc_frameScale :: "real option"
  bc_showFrameGuide :: "bool option"

text \<open>The frame guide: a rectangle without identifier, centred on the canvas.\<close>

definition frameRect :: "dimensions \<Rightarrow> dimensions \<Rightarrow> canvas_metadata \<Rightarrow> fabric_object" where
  "frameRect canvasResolution videoSize scaledMetadata =
     \<lparr>fo_id = None, fo_type = ''rect'',
      fo_left = dim_width canvasResolution / 2, fo_top = dim_height canvasResolution / 2,
      fo_scaleX = 1, fo_scaleY = 1, fo_angle = 0,
      fo_width = dim_width videoSize * cm_scaleX scaledMetadata,
      fo_height = dim_height videoSize * cm_scaleY scaledMetadata,
      fo_evented = False, fo_zIndex = None\<rparr>"

text \<open>
  \<^verbatim>\<open>buildCanvas\<close>. \<open>sendToBack\<close> says whether the Fabric in use has the method of that
  name (on the object or on the canvas); without it the guide stays where \<^verbatim>\<open>add\<close> put it.
\<close>

definition buildCanvas :: "helpers \<Rightarrow> bool \<Rightarrow> hook_state \<Rightarrow> canvas_props \<Rightarrow> hook_state" where
  "buildCanvas h sendToBack s a =
     (if \<not> bc_canvasRef a then s
      else if \<not> (case bc_forceBuild a of None \<Rightarrow> False | Some b \<Rightarrow> b) \<and>
              dim_width (canvasResolutionRef s) = dim_width (bc_canvasSize a) \<and>
              dim_height (canvasResolutionRef s) = dim_height (bc_canvasSize a)
      then s
      else
        (case createCanvas h (bc_videoSize a) (bc_canvasSize a)
                (case bc_backgroundColor a of None \<Rightarrow> ''#000000'' | Some c \<Rightarrow> c) of
           (canvas, canvasMetadata) \<Rightarrow>
             (let frameScale = (case bc_frameScale a of None \<Rightarrow> 1 | Some f \<Rightarrow> f);
                  scaledMetadata = canvasMetadata
                    \<lparr>cm_scaleX := cm_scaleX canvasMetadata * frameScale,
                     cm_scaleY := cm_scaleY canvasMetadata * frameScale\<rparr>;
                  guide = frameRect (bc_canvasSize a) (bc_videoSize a) scaledMetadata;
                  canvas' =
                    (if (case bc_showFrameGuide a of None \<Rightarrow> False | Some b \<Rightarrow> b)
                     then canvas\<lparr>fc_objects :=
                            (if sendToBack then guide # fc_objects canvas
                             else fc_objects canvas @ [guide])\<rparr>
                     else canvas)
              in s\<lparr>canvasMetadataRef := scaledMetadata,
                   videoSizeRef := bc_videoSize a,
                   canvasResolutionRef := bc_canvasSize a,
                   twickCanvas := Some canvas'\<rparr>)))"

text \<open>The refs as \<^verbatim>\<open>useTwickCanvas\<close> initialises them.\<close>

definition initial_state :: hook_state where
  "initial_state =
     \<lparr>twickCanvas = None, elementMap = Map.empty, elementFrameMap = Map.empty,
      videoSizeRef = \<lparr>dim_width = 1, dim_height = 1\<rparr>,
      canvasResolutionRef = \<lparr>dim_width = 1, dim_height = 1\<rparr>,
      captionPropsRef = None,
      canvasMetadataRef = \<lparr>cm_width = 0, cm_height = 0, cm_aspectRatio = 0,
                           cm_scaleX = 1, cm_scaleY = 1\<rparr>\<rparr>"

section \<open>The imported helpers, as the spec describes them\<close>

text \<open>
  Modelled from the spec: \<^verbatim>\<open>computeMetadata\<close> of the CoordinateMapper (the metadata
  part of \<^verbatim>\<open>createCanvas\<close> in \<^verbatim>\<open>../helpers/canvas.util\<close>, which is not among the
  sources). The scale factors map video units to canvas units and are shrunk by the frame
  scale; with a canvas dimension that is not positive the previous metadata is returned.
\<close>

definition computeMetadata ::
  "dimensions \<Rightarrow> dimensions \<Rightarrow> real \<Rightarrow> canvas_metadata \<Rightarrow> canvas_metadata" where
  "computeMetadata videoSize canvasSize frameScale previous =
     (if dim_width canvasSize \<le> 0 \<or> dim_height canvasSize \<le> 0 then previous
      else \<lparr>cm_width = dim_width canvasSize, cm_height = dim_height canvasSize,
            cm_aspectRatio = dim_width canvasSize / dim_height canvasSize,
            cm_scaleX = dim_width canvasSize / dim_width videoSize * frameScale,
            cm_scaleY = dim_height canvasSize / dim_height videoSize * frameScale\<rparr>)"

text \<open>
  Modelled from the spec: \<^verbatim>\<open>toCanvasPosition\<close> and \<^verbatim>\<open>toVideoPosition\<close> of the
  CoordinateMapper (\<^verbatim>\<open>convertToCanvasPosition\<close> and \<^verbatim>\<open>convertToVideoPosition\<close> of
  \<^verbatim>\<open>../helpers/canvas.util\<close>, which is not among the sources). The spec says of the
  mapping only that \<open>scaleX\<close> and \<open>scaleY\<close> take video units to canvas units; it names
  no offset.
\<close>

definition toCanvasPosition :: "position \<Rightarrow> canvas_metadata \<Rightarrow> position" where
  "toCanvasPosition p m = \<lparr>pos_x = pos_x p * cm_scaleX m, pos_y = pos_y p * cm_scaleY m\<rparr>"

definition toVideoPosition :: "position \<Rightarrow> canvas_metadata \<Rightarrow> position" where
  "toVideoPosition q m = \<lparr>pos_x = pos_x q / cm_scaleX m, pos_y = pos_y q / cm_scaleY m\<rparr>"

text \<open>
  Modelled from the spec: \<^verbatim>\<open>resolveActiveVariant\<close> of the SceneRegistry
  (\<^verbatim>\<open>getCurrentFrameEffect\<close>, not among the sources): the first frame effect of the
  element's list whose window contains the time.
\<close>

definition resolveActiveVariant :: "element \<Rightarrow> real \<Rightarrow> frame_effect option" where
  "resolveActiveVariant el t =
     find (\<lambda>fe. fe_s fe \<le> t \<and> t \<le> fe_e fe)
       (case el_frameEffects el of None \<Rightarrow> [] | Some fes \<Rightarrow> fes)"

text \<open>
  Modelled from the spec: the ElementProjector (the constructors of
  \<^verbatim>\<open>../components/elements\<close>, not among the sources). An element without one of
  \<open>x\<close>, \<open>y\<close>, \<open>width\<close>, \<open>height\<close> fails with \<^verbatim>\<open>InvalidElementData\<close>; otherwise
  its object is placed by the scale factors, and an object of the same identifier is
  refreshed rather than added again. A video with an active frame effect is a group. The
  background of a scene element has the identifier of the element with a suffix.
\<close>

definition put_object :: "fabric_object \<Rightarrow> fabric_canvas \<Rightarrow> fabric_canvas" where
  "put_object ob canvas =
     canvas\<lparr>fc_objects :=
       (if fo_id ob \<in> set (map fo_id (fc_objects canvas))
        then map (\<lambda>old. if fo_id old = fo_id ob then ob else old) (fc_objects canvas)
        else fc_objects canvas @ [ob])\<rparr>"

definition project ::
  "string \<Rightarrow> string \<Rightarrow> element \<Rightarrow> nat \<Rightarrow> canvas_metadata \<Rightarrow> fabric_canvas \<Rightarrow>
   exn option \<times> fabric_canvas" where
  "project ident kind el index m canvas =
     (case (props_x (el_props el), props_y (el_props el),
            props_width (el_props el), props_height (el_props el)) of
        (Some x, Some y, Some w, Some hgt) \<Rightarrow>
          (None, put_object
             \<lparr>fo_id = Some ident, fo_type = kind,
              fo_left = x * cm_scaleX m, fo_top = y * cm_scaleY m,
              fo_scaleX = 1, fo_scaleY = 1,
              fo_angle = (case props_rotation (el_props el) of None \<Rightarrow> 0 | Some a \<Rightarrow> a),
              fo_width = w * cm_scaleX m, fo_height = hgt * cm_scaleY m,
              fo_evented = True, fo_zIndex = Some (real index)\<rparr> canvas)
      | _ \<Rightarrow> (Some (Thrown ''InvalidElementData''), canvas))"

fun model_addElement :: "add_call \<Rightarrow> fabric_canvas \<Rightarrow> exn option \<times> fabric_canvas" where
  "model_addElement (AddVideoElement el i m cfe st) canvas =
     project (el_id el) (if cfe = None then ''image'' else ''group'') el i m canvas"
| "model_addElement (AddImageElement el i m) canvas = project (el_id el) ''image'' el i m canvas"
| "model_addElement (AddRectElement el i m) canvas = project (el_id el) ''rect'' el i m canvas"
| "model_addElement (AddCircleElement el i m) canvas = project (el_id el) ''circle'' el i m canvas"
| "model_addElement (AddTextElement el i m) canvas = project (el_id el) ''text'' el i m canvas"
| "model_addElement (AddCaptionElement el i cp m) canvas = project (el_id el) ''text'' el i m canvas"
| "model_addElement (AddBackgroundColor el i m) canvas =
     project (el_id el @ ''-background'') ''rect'' el i m canvas"

text \<open>
  Modelled from the spec: the reorder step of the SceneBuilder
  (\<^verbatim>\<open>reorderElementsByZIndex\<close>, not among the sources): ascending z-index, an absent
  z-index counting as 0, the objects without identifier (the frame guide) at the very back.
\<close>

definition model_reorder :: "fabric_canvas \<Rightarrow> fabric_canvas" where
  "model_reorder canvas =
     canvas\<lparr>fc_objects :=
       filter (\<lambda>ob. fo_id ob = None) (fc_objects canvas) @
       sort_key (\<lambda>ob. or_default (fo_zIndex ob) 0)
         (filter (\<lambda>ob. fo_id ob \<noteq> None) (fc_objects canvas))\<rparr>"

text \<open>
  Modelled from the spec: the remaining helpers of \<^verbatim>\<open>../helpers/canvas.util\<close>.
  Clearing removes every object; the hook saves the background colour before the call and
  puts it back afterwards, so the model lets the call reset it.
\<close>

definition model_helpers :: helpers where
  "model_helpers =
     \<lparr>convertToVideoPosition = (\<lambda>left top m videoSize. toVideoPosition \<lparr>pos_x = left, pos_y = top\<rparr> m),
      createCanvas = (\<lambda>videoSize canvasSize backgroundColor.
         (\<lparr>fc_objects = [], fc_backgroundColor = backgroundColor, fc_context = True\<rparr>,
          computeMetadata videoSize canvasSize 1
            \<lparr>cm_width = 0, cm_height = 0, cm_aspectRatio = 0, cm_scaleX = 1, cm_scaleY = 1\<rparr>)),
      getCurrentFrameEffect = resolveActiveVariant,
      reorderElementsByZIndex = model_reorder,
      clearCanvas = (\<lambda>canvas. canvas\<lparr>fc_objects := [], fc_backgroundColor := []\<rparr>),
      getCanvasContext = fc_context,
      addElement = model_addElement\<rparr>"

text \<open>
  The local playback offset as the spec words it, to compare with \<^const>\<open>snapTime\<close>: a
  default stands in for a field that is absent, and for nothing else.
\<close>

definition spec_snapTime :: "real option \<Rightarrow> element \<Rightarrow> real" where
  "spec_snapTime seekTime element =
     ((case seekTime of None \<Rightarrow> 0 | Some t \<Rightarrow> t) -
      (case el_s element of None \<Rightarrow> 0 | Some st \<Rightarrow> st)) *
       (case props_playbackRate (el_props element) of None \<Rightarrow> 1 | Some r \<Rightarrow> r) +
     (case props_time (el_props element) of None \<Rightarrow> 0 | Some t \<Rightarrow> t)"

section \<open>A small scene\<close>

text \<open>
  A project of 1920 by 1080 on a canvas of 960 by 540 with the frame guide shown, a
  circle, a framed video with an active frame effect, a rectangle, a rectangle without
  width, and an element of a kind the hook does not know.
\<close>

definition example_props :: canvas_props where
  "example_props =
     \<lparr>bc_videoSize = \<lparr>dim_width = 1920, dim_height = 1080\<rparr>,
      bc_canvasSize = \<lparr>dim_width = 960, dim_height = 540\<rparr>,
      bc_canvasRef = True, bc_backgroundColor = None, bc_forceBuild = None,
      bc_frameScale = None, bc_showFrameGuide = Some True\<rparr>"

definition example_metadata :: canvas_metadata where
  "example_metadata =
     \<lparr>cm_width = 960, cm_height = 540, cm_aspectRatio = 16 / 9,
      cm_scaleX = 1 / 2, cm_scaleY = 1 / 2\<rparr>"

definition example_guide :: fabric_object where
  "example_guide =
     \<lparr>fo_id = None, fo_type = ''rect'', fo_left = 480, fo_top = 270,
      fo_scaleX = 1, fo_scaleY = 1, fo_angle = 0, fo_width = 960, fo_height = 540,
      fo_evented = False, fo_zIndex = None\<rparr>"

definition example_canvas :: fabric_canvas where
  "example_canvas =
     \<lparr>fc_objects = [example_guide], fc_backgroundColor = ''#000000'', fc_context = True\<rparr>"

definition geometry :: "real \<Rightarrow> real \<Rightarrow> real option \<Rightarrow> real option \<Rightarrow> props" where
  "geometry x y w hgt =
     \<lparr>props_x = Some x, props_y = Some y, props_rotation = None, props_radius = None,
      props_width = w, props_height = hgt, props_playbackRate = None, props_time = None\<rparr>"

definition example_circle :: element where
  "example_circle =
     \<lparr>el_id = ''circle-1'', el_type = ''circle'', el_s = Some 0, el_timelineType = ''overlay'',
      el_props = (geometry 100 50 (Some 20) (Some 20))\<lparr>props_radius := Some 10\<rparr>,
      el_frame = None, el_frameEffects = None\<rparr>"

definition example_effect :: frame_effect where
  "example_effect =
     \<lparr>fe_id = ''effect-1'', fe_s = 0, fe_e = 10,
      fe_props = \<lparr>fep_framePosition = None, fep_frameSize = (200, 100)\<rparr>,
      fe_framePosition = None, fe_frameSize = None\<rparr>"

definition later_effect :: frame_effect where
  "later_effect =
     \<lparr>fe_id = ''effect-2'', fe_s = 20, fe_e = 30,
      fe_props = \<lparr>fep_framePosition = None, fep_frameSize = (50, 50)\<rparr>,
      fe_framePosition = None, fe_frameSize = None\<rparr>"

definition example_frame :: frame where
  "example_frame =
     \<lparr>frame_rotation = None, frame_size = (400, 300), frame_x = Some 0, frame_y = Some 0\<rparr>"

definition example_video :: element where
  "example_video =
     \<lparr>el_id = ''video-1'', el_type = ''video'', el_s = Some 1, el_timelineType = ''scene'',
      el_props = (geometry 0 0 (Some 1920) (Some 1080))\<lparr>props_playbackRate := Some 0\<rparr>,
      el_frame = Some example_frame,
      el_frameEffects = Some [example_effect, later_effect]\<rparr>"

definition example_rect :: element where
  "example_rect =
     \<lparr>el_id = ''rect-1'', el_type = ''rect'', el_s = Some 0, el_timelineType = ''overlay'',
      el_props = geometry 10 20 (Some 300) (Some 200), el_frame = None, el_frameEffects = None\<rparr>"

definition malformed_rect :: element where
  "malformed_rect =
     \<lparr>el_id = ''rect-0'', el_type = ''rect'', el_s = Some 0, el_timelineType = ''overlay'',
      el_props = geometry 10 20 None (Some 200), el_frame = None, el_frameEffects = None\<rparr>"

definition example_sticker :: element where
  "example_sticker =
     \<lparr>el_id = ''sticker-1'', el_type = ''sticker'', el_s = None, el_timelineType = ''overlay'',
      el_props = geometry 0 0 None None, el_frame = None, el_frameEffects = None\<rparr>"

definition example_state :: hook_state where
  "example_state =
     \<lparr>twickCanvas = Some example_canvas,
      elementMap = [''circle-1'' \<mapsto> example_circle, ''video-1'' \<mapsto> example_video],
      elementFrameMap = [''video-1'' \<mapsto> example_effect],
      videoSizeRef = \<lparr>dim_width = 1920, dim_height = 1080\<rparr>,
      canvasResolutionRef = \<lparr>dim_width = 960, dim_height = 540\<rparr>,
      captionPropsRef = None,
      canvasMetadataRef = example_metadata\<rparr>"

text \<open>The objects of the circle and of the framed video after the user doubled the one and
  stretched the other, and the pointer events that report it.\<close>

definition circle_object :: fabric_object where
  "circle_object =
     \<lparr>fo_id = Some ''circle-1'', fo_type = ''circle'', fo_left = 50, fo_top = 25,
      fo_scaleX = 2, fo_scaleY = 2, fo_angle = 0, fo_width = 10, fo_height = 10,
      fo_evented = True, fo_zIndex = Some 0\<rparr>"

definition group_object :: fabric_object where
  "group_object =
     \<lparr>fo_id = Some ''video-1'', fo_type = ''group'', fo_left = 480, fo_top = 270,
      fo_scaleX = 2, fo_scaleY = 3, fo_angle = 15, fo_width = 100, fo_height = 50,
      fo_evented = True, fo_zIndex = Some 1\<rparr>"

text \<open>The object Fabric makes of several selected objects: it is evented and carries no
  identifier.\<close>

definition example_selection :: fabric_object where
  "example_selection =
     \<lparr>fo_id = None, fo_type = ''activeselection'', fo_left = 300, fo_top = 200,
      fo_scaleX = 1, fo_scaleY = 1, fo_angle = 0, fo_width = 120, fo_height = 80,
      fo_evented = True, fo_zIndex = None\<rparr>"

definition pointer :: "fabric_object \<Rightarrow> string \<Rightarrow> real \<Rightarrow> real \<Rightarrow> mouse_event" where
  "pointer object action originalLeft originalTop =
     \<lparr>ev_target = Some object,
      ev_transform = Some \<lparr>tr_action = action, tr_original_left = originalLeft,
                             tr_original_top = originalTop\<rparr>\<rparr>"

section \<open>Properties of the gesture handler\<close>

lemma toFixed2_close:
  assumes "\<bar>v\<bar> < 10 ^ 21"
  shows "\<bar>toFixed2 v - v\<bar> \<le> 1 / 200 \<and> (\<exists>n::int. toFixed2 v = of_int n / 100)"
proof -
  let ?k = "\<lfloor>\<bar>v\<bar> * 100 + 1 / 2\<rfloor>"
  have tf: "toFixed2 v = sgn v * of_int ?k / 100"
    using assms by (simp add: toFixed2_def)
  have lo: "of_int ?k \<le> \<bar>v\<bar> * 100 + 1 / 2" by (rule of_int_floor_le)
  have hi: "\<bar>v\<bar> * 100 + 1 / 2 < of_int ?k + 1" by linarith
  have ab: "\<bar>of_int ?k / 100 - \<bar>v\<bar>\<bar> \<le> 1 / 200"
    using lo hi by linarith
  have "\<bar>toFixed2 v - v\<bar> = \<bar>of_int ?k / 100 - \<bar>v\<bar>\<bar>"
  proof (cases "v < 0")
    case True
    then show ?thesis unfolding tf by (simp add: sgn_if abs_if)
  next
    case False
    then show ?thesis unfolding tf by (cases "v = 0") (simp_all add: sgn_if)
  qed
  moreover have "\<exists>n::int. toFixed2 v = of_int n / 100"
  proof (cases "v < 0")
    case True
    then have "toFixed2 v = of_int (- ?k) / 100" unfolding tf by (simp add: sgn_if)
    then show ?thesis by blast
  next
    case False
    show ?thesis
    proof (cases "v = 0")
      case True
      then have "toFixed2 v = of_int 0 / 100" unfolding tf by simp
      then show ?thesis by blast
    next
      case False
      with \<open>\<not> v < 0\<close> have "toFixed2 v = of_int ?k / 100" unfolding tf by (simp add: sgn_if)
      then show ?thesis by blast
    qed
  qed
  ultimately show ?thesis using ab by simp
qed

lemma scale_action:
  assumes "ev_transform ev = Some t" and "tr_action t \<in> {''scale'', ''scaleX'', ''scaleY''}"
  shows "\<not> unmoved_drag ev object \<and> switch_action ev"
  using assms by (auto simp: unmoved_drag_def switch_action_def)

lemma example_lookup:
  "elementMap example_state ''circle-1'' = Some example_circle"
  "elementMap example_state ''video-1'' = Some example_video"
  "elementMap example_state ''undefined'' = None"
  "elementFrameMap example_state ''video-1'' = Some example_effect"
  "twickCanvas example_state = Some example_canvas"
  by (simp_all add: example_state_def)

text \<open>
  C3. A scale gesture on the circle object of a circle element emits one update whose
  element has the old radius times the object's \<open>scaleX\<close>, rounded by \<^const>\<open>toFixed2\<close>,
  as its radius, and twice that radius as width and as height. Below \<open>10\<^sup>2\<^sup>1\<close> the
  rounded radius is a multiple of 1/100 at most 1/200 away from the product. A radius of
  10 scaled by 2 gives radius 20, width 40 and height 40.
\<close>

theorem circle_scale_patch:
  assumes tgt: "ev_target ev = Some object"
    and tr: "ev_transform ev = Some t"
    and act: "tr_action t \<in> {''scale'', ''scaleX'', ''scaleY''}"
    and reg: "elementMap s (property_key (fo_id object)) = Some el"
    and kind: "el_type el = ''circle''"
    and shape: "fo_type object = ''circle''"
    and rad: "props_radius (el_props el) = Some r"
  shows "\<exists>el'. handleMouseUp h True s ev =
            \<lparr>out_exn = None,
             out_state = s\<lparr>elementMap := (elementMap s)(property_key (fo_id object) \<mapsto> el')\<rparr>,
             out_notes = [(ITEM_UPDATED, ElementData (Some el'))]\<rparr> \<and>
          props_radius (el_props el') = Some (toFixed2 (r * fo_scaleX object)) \<and>
          props_width (el_props el') = Some (toFixed2 (r * fo_scaleX object) * 2) \<and>
          props_height (el_props el') = Some (toFixed2 (r * fo_scaleX object) * 2) \<and>
          (\<bar>r * fo_scaleX object\<bar> < 10 ^ 21 \<longrightarrow>
             \<bar>toFixed2 (r * fo_scaleX object) - r * fo_scaleX object\<bar> \<le> 1 / 200 \<and>
             (\<exists>n::int. toFixed2 (r * fo_scaleX object) = of_int n / 100)) \<and>
          (r = 10 \<and> fo_scaleX object = 2 \<longrightarrow>
             props_radius (el_props el') = Some 20 \<and>
             props_width (el_props el') = Some 40 \<and> props_height (el_props el') = Some 40)"
proof -
  let ?p = "convertToVideoPosition h (fo_left object) (fo_top object)
              (canvasMetadataRef s) (videoSizeRef s)"
  let ?el = "circle_gesture el object ?p"
  from scale_action[OF tr act]
  have nd: "\<not> unmoved_drag ev object" and sw: "switch_action ev" by simp_all
  have run: "handleMouseUp h True s ev =
            \<lparr>out_exn = None,
             out_state = s\<lparr>elementMap := (elementMap s)(property_key (fo_id object) \<mapsto> ?el)\<rparr>,
             out_notes = [(ITEM_UPDATED, ElementData (Some ?el))]\<rparr>"
    using tgt reg kind shape nd sw
    by (simp add: handleMouseUp_def returns_def emit_def Let_def)
  have r1: "props_radius (el_props ?el) = Some (toFixed2 (r * fo_scaleX object))"
    and r2: "props_width (el_props ?el) = Some (toFixed2 (r * fo_scaleX object) * 2)"
    and r3: "props_height (el_props ?el) = Some (toFixed2 (r * fo_scaleX object) * 2)"
    using rad by (simp_all add: circle_gesture_def js_mul_def Let_def)
  have tf: "toFixed2 20 = 20" by (simp add: toFixed2_def)
  have r4: "r = 10 \<and> fo_scaleX object = 2 \<longrightarrow>
             props_radius (el_props ?el) = Some 20 \<and>
             props_width (el_props ?el) = Some 40 \<and> props_height (el_props ?el) = Some 40"
    using r1 r2 r3 tf by simp
  show ?thesis
    using run r1 r2 r3 r4 toFixed2_close[of "r * fo_scaleX object"] by blast
qed

theorem circle_scale_patch_witness:
  "\<exists>el'. out_notes (handleMouseUp model_helpers True example_state
                      (pointer circle_object ''scaleX'' 50 25)) =
            [(ITEM_UPDATED, ElementData (Some el'))] \<and>
         props_radius (el_props el') = Some 20 \<and>
         props_width (el_props el') = Some 40 \<and> props_height (el_props el') = Some 40"
proof -
  let ?ev = "pointer circle_object ''scaleX'' 50 25"
  let ?t = "\<lparr>tr_action = ''scaleX'', tr_original_left = 50, tr_original_top = 25\<rparr>"
  have h1: "ev_target ?ev = Some circle_object" by (simp add: pointer_def)
  have h2: "ev_transform ?ev = Some ?t" by (simp add: pointer_def)
  have h3: "tr_action ?t \<in> {''scale'', ''scaleX'', ''scaleY''}" by simp
  have h4: "elementMap example_state (property_key (fo_id circle_object)) = Some example_circle"
    by (simp add: circle_object_def property_key_def example_lookup)
  have h5: "el_type example_circle = ''circle''" by (simp add: example_circle_def)
  have h6: "fo_type circle_object = ''circle''" by (simp add: circle_object_def)
  have h7: "props_radius (el_props example_circle) = Some 10" by (simp add: example_circle_def)
  have h8: "fo_scaleX circle_object = 2" by (simp add: circle_object_def)
  from circle_scale_patch[OF h1 h2 h3 h4 h5 h6 h7, of model_helpers] h8
  show ?thesis by auto
qed

text \<open>
  C4. A drag that ends at the position it started from emits exactly one notification, a
  selection carrying the registry entry of the object's identifier; it emits no update,
  raises nothing and leaves the refs, and so the registry, as they were.
\<close>

theorem click_selects:
  assumes tgt: "ev_target ev = Some object"
    and tr: "ev_transform ev = Some t"
    and act: "tr_action t = ''drag''"
    and same_left: "fo_left object = tr_original_left t"
    and same_top: "fo_top object = tr_original_top t"
  shows "handleMouseUp h True s ev =
           \<lparr>out_exn = None, out_state = s,
            out_notes = [(ITEM_SELECTED, ElementData (elementMap s (property_key (fo_id object))))]\<rparr> \<and>
         filter (\<lambda>n. fst n \<noteq> ITEM_SELECTED) (out_notes (handleMouseUp h True s ev)) = []"
  using assms
  by (simp add: handleMouseUp_def unmoved_drag_def returns_def emit_def Let_def)

theorem click_selects_witness:
  "handleMouseUp model_helpers True example_state (pointer circle_object ''drag'' 50 25) =
     \<lparr>out_exn = None, out_state = example_state,
      out_notes = [(ITEM_SELECTED, ElementData (Some example_circle))]\<rparr>"
proof -
  let ?ev = "pointer circle_object ''drag'' 50 25"
  let ?t = "\<lparr>tr_action = ''drag'', tr_original_left = 50, tr_original_top = 25\<rparr>"
  have h1: "ev_target ?ev = Some circle_object" by (simp add: pointer_def)
  have h2: "ev_transform ?ev = Some ?t" by (simp add: pointer_def)
  have h3: "tr_action ?t = ''drag''" by simp
  have h4: "fo_left circle_object = tr_original_left ?t" by (simp add: circle_object_def)
  have h5: "fo_top circle_object = tr_original_top ?t" by (simp add: circle_object_def)
  have h6: "elementMap example_state (property_key (fo_id circle_object)) = Some example_circle"
    by (simp add: circle_object_def property_key_def example_lookup)
  from click_selects[OF h1 h2 h3 h4 h5, of model_helpers example_state] h6
  show ?thesis by simp
qed

text \<open>
  C5, as amended. A pointer interaction on an object without identifier, with no registry
  entry under the key \<^verbatim>\<open>undefined\<close>, leaves the refs unchanged. It is ignored silently
  only when it has no transform or an action other than drag, scale, scaleX, scaleY and
  rotate; a drag that did not move emits a selection without element, and any other of
  the five actions raises a \<^verbatim>\<open>TypeError\<close>.
\<close>

theorem unidentified_object:
  assumes tgt: "ev_target ev = Some object"
    and noid: "fo_id object = None"
    and noreg: "elementMap s ''undefined'' = None"
  shows "handleMouseUp h True s ev =
           (case ev_transform ev of
              None \<Rightarrow> \<lparr>out_exn = None, out_state = s, out_notes = []\<rparr>
            | Some t \<Rightarrow>
                if tr_action t = ''drag'' \<and> fo_left object = tr_original_left t \<and>
                   fo_top object = tr_original_top t
                then \<lparr>out_exn = None, out_state = s,
                      out_notes = [(ITEM_SELECTED, ElementData None)]\<rparr>
                else if tr_action t \<in> {''drag'', ''scale'', ''scaleX'', ''scaleY'', ''rotate''}
                then \<lparr>out_exn = Some TypeError, out_state = s, out_notes = []\<rparr>
                else \<lparr>out_exn = None, out_state = s, out_notes = []\<rparr>)"
  using assms
  by (simp add: handleMouseUp_def unmoved_drag_def switch_action_def returns_def throws_def
      emit_def property_key_def Let_def split: option.splits)

theorem unidentified_object_witness:
  "handleMouseUp model_helpers True example_state (pointer example_selection ''skewX'' 300 200) =
     \<lparr>out_exn = None, out_state = example_state, out_notes = []\<rparr> \<and>
   handleMouseUp model_helpers True example_state (pointer example_selection ''drag'' 300 200) =
     \<lparr>out_exn = None, out_state = example_state,
      out_notes = [(ITEM_SELECTED, ElementData None)]\<rparr> \<and>
   handleMouseUp model_helpers True example_state (pointer example_selection ''rotate'' 300 200) =
     \<lparr>out_exn = Some TypeError, out_state = example_state, out_notes = []\<rparr>"
proof -
  have h1: "ev_target (pointer example_selection a x0 y0) = Some example_selection" for a x0 y0
    by (simp add: pointer_def)
  have h2: "fo_id example_selection = None" by (simp add: example_selection_def)
  have h3: "elementMap example_state ''undefined'' = None" by (rule example_lookup)
  have tr: "ev_transform (pointer example_selection a 300 200) =
              Some \<lparr>tr_action = a, tr_original_left = 300, tr_original_top = 200\<rparr>" for a
    by (simp add: pointer_def)
  have g: "fo_left example_selection = 300" "fo_top example_selection = 200"
    by (simp_all add: example_selection_def)
  have run: "handleMouseUp model_helpers True example_state (pointer example_selection a 300 200) =
      (if a = ''drag''
       then \<lparr>out_exn = None, out_state = example_state,
             out_notes = [(ITEM_SELECTED, ElementData None)]\<rparr>
       else if a \<in> {''drag'', ''scale'', ''scaleX'', ''scaleY'', ''rotate''}
       then \<lparr>out_exn = Some TypeError, out_state = example_state, out_notes = []\<rparr>
       else \<lparr>out_exn = None, out_state = example_state, out_notes = []\<rparr>)" for a
    using unidentified_object[OF h1 h2 h3, where h = model_helpers and a1 = a
        and ?x0.1 = 300 and ?y0.1 = 200]
    by (simp add: tr g)
  show ?thesis
    using run[of "''skewX''"] run[of "''drag''"] run[of "''rotate''"] by simp
qed

text \<open>
  C5, as the spec states it, fails on the selection of the example scene, an object
  without identifier: a click on it emits a notification, and a rotation of it raises an
  exception.
\<close>

theorem unidentified_object_counterexample:
  "out_notes (handleMouseUp model_helpers True example_state
                (pointer example_selection ''drag'' 300 200)) \<noteq> [] \<and>
   out_exn (handleMouseUp model_helpers True example_state
                (pointer example_selection ''rotate'' 300 200)) \<noteq> None"
  by (simp add: handleMouseUp_def unmoved_drag_def switch_action_def returns_def throws_def
      emit_def property_key_def pointer_def example_selection_def example_lookup Let_def)

text \<open>
  C6. A moving, scaling or rotating gesture on a group whose element is not a caption
  emits one update. With an active frame effect in the frame registry, the effects of the
  element with that effect's identifier get the converted position as
  \<open>framePosition\<close> and the active effect's \<open>frameSize\<close> times the object's
  \<open>scaleX\<close> and \<open>scaleY\<close> as \<open>frameSize\<close>, and the element's frame and props stay as
  they were. Without one, the element's frame gets the converted position, the object's
  angle and its own size times the object's \<open>scaleX\<close> and \<open>scaleY\<close>.
\<close>

theorem group_gesture_patch:
  assumes tgt: "ev_target ev = Some object"
    and grp: "fo_type object = ''group''"
    and tr: "ev_transform ev = Some t"
    and act: "tr_action t \<in> {''drag'', ''scale'', ''scaleX'', ''scaleY'', ''rotate''}"
    and moved: "\<not> (tr_action t = ''drag'' \<and> fo_left object = tr_original_left t \<and>
                   fo_top object = tr_original_top t)"
    and reg: "elementMap s (property_key (fo_id object)) = Some el"
    and kind: "el_type el \<noteq> ''caption''"
    and pos: "p = convertToVideoPosition h (fo_left object) (fo_top object)
                    (canvasMetadataRef s) (videoSizeRef s)"
  shows "(\<forall>cfe. elementFrameMap s (property_key (fo_id object)) = Some cfe \<longrightarrow>
            (\<exists>el'. out_exn (handleMouseUp h True s ev) = None \<and>
               out_notes (handleMouseUp h True s ev) = [(ITEM_UPDATED, ElementData (Some el'))] \<and>
               el_frameEffects el' = Some (map
                 (\<lambda>fe. if fe_id fe = fe_id cfe
                    then fe\<lparr>fe_props := (fe_props fe)
                           \<lparr>fep_framePosition := Some p,
                            fep_frameSize := (fst (fep_frameSize (fe_props cfe)) * fo_scaleX object,
                                              snd (fep_frameSize (fe_props cfe)) * fo_scaleY object)\<rparr>\<rparr>
                    else fe)
                 (case el_frameEffects el of None \<Rightarrow> [] | Some fes \<Rightarrow> fes)) \<and>
               el_frame el' = el_frame el \<and> el_props el' = el_props el)) \<and>
         (elementFrameMap s (property_key (fo_id object)) = None \<longrightarrow>
            (\<forall>fr. el_frame el = Some fr \<longrightarrow>
               out_exn (handleMouseUp h True s ev) = None \<and>
               out_notes (handleMouseUp h True s ev) =
                 [(ITEM_UPDATED, ElementData (Some (el\<lparr>el_frame := Some
                     (fr\<lparr>frame_rotation := Some (fo_angle object),
                         frame_size := (fst (frame_size fr) * fo_scaleX object,
                                        snd (frame_size fr) * fo_scaleY object),
                         frame_x := Some (pos_x p), frame_y := Some (pos_y p)\<rparr>)\<rparr>)))]))"
proof -
  have nd: "\<not> unmoved_drag ev object" using tr moved by (simp add: unmoved_drag_def)
  have sw: "switch_action ev" using tr act by (simp add: switch_action_def)
  show ?thesis
    using tgt grp nd sw reg kind pos
    by (auto simp: handleMouseUp_def returns_def emit_def Let_def frame_effect_gesture_def
        frame_gesture_def)
qed

theorem group_gesture_patch_witness:
  "(\<exists>el'. out_notes (handleMouseUp model_helpers True example_state
                        (pointer group_object ''scale'' 400 200)) =
             [(ITEM_UPDATED, ElementData (Some el'))] \<and>
          el_frameEffects el' = Some
            [example_effect\<lparr>fe_props := \<lparr>fep_framePosition = Some \<lparr>pos_x = 960, pos_y = 540\<rparr>,
                                        fep_frameSize = (400, 300)\<rparr>\<rparr>,
             later_effect] \<and>
          el_frame el' = Some example_frame) \<and>
   out_notes (handleMouseUp model_helpers True (example_state\<lparr>elementFrameMap := Map.empty\<rparr>)
                (pointer group_object ''scale'' 400 200)) =
     [(ITEM_UPDATED, ElementData (Some (example_video\<lparr>el_frame := Some
         \<lparr>frame_rotation = Some 15, frame_size = (800, 900),
          frame_x = Some 960, frame_y = Some 540\<rparr>\<rparr>)))]"
proof -
  let ?ev = "pointer group_object ''scale'' 400 200"
  let ?t = "\<lparr>tr_action = ''scale'', tr_original_left = 400, tr_original_top = 200\<rparr>"
  let ?p = "\<lparr>pos_x = 960, pos_y = 540\<rparr>"
  let ?s0 = "example_state\<lparr>elementFrameMap := Map.empty\<rparr>"
  have h1: "ev_target ?ev = Some group_object" by (simp add: pointer_def)
  have h2: "fo_type group_object = ''group''" by (simp add: group_object_def)
  have h3: "ev_transform ?ev = Some ?t" by (simp add: pointer_def)
  have h4: "tr_action ?t \<in> {''drag'', ''scale'', ''scaleX'', ''scaleY'', ''rotate''}" by simp
  have h5: "\<not> (tr_action ?t = ''drag'' \<and> fo_left group_object = tr_original_left ?t \<and>
               fo_top group_object = tr_original_top ?t)" by simp
  have key: "property_key (fo_id group_object) = ''video-1''"
    by (simp add: group_object_def property_key_def)
  have h6: "elementMap example_state (property_key (fo_id group_object)) = Some example_video"
    by (simp add: key example_lookup)
  have h6': "elementMap ?s0 (property_key (fo_id group_object)) = Some example_video"
    by (simp add: key example_lookup)
  have h7: "el_type example_video \<noteq> ''caption''" by (simp add: example_video_def)
  have h8: "?p = convertToVideoPosition model_helpers (fo_left group_object) (fo_top group_object)
                   (canvasMetadataRef example_state) (videoSizeRef example_state)"
    by (simp add: model_helpers_def toVideoPosition_def group_object_def example_state_def
        example_metadata_def)
  have h8': "?p = convertToVideoPosition model_helpers (fo_left group_object) (fo_top group_object)
                   (canvasMetadataRef ?s0) (videoSizeRef ?s0)"
    using h8 by simp
  have a: "elementFrameMap example_state (property_key (fo_id group_object)) = Some example_effect"
    by (simp add: key example_lookup)
  have b: "elementFrameMap ?s0 (property_key (fo_id group_object)) = None" by simp
  have c: "el_frame example_video = Some example_frame"
    "el_frameEffects example_video = Some [example_effect, later_effect]"
    by (simp_all add: example_video_def)
  have d: "fo_scaleX group_object = 2" "fo_scaleY group_object = 3" "fo_angle group_object = 15"
    by (simp_all add: group_object_def)
  have e: "fep_frameSize (fe_props example_effect) = (200, 100)"
    "fe_props example_effect = \<lparr>fep_framePosition = None, fep_frameSize = (200, 100)\<rparr>"
    "fe_id example_effect = ''effect-1''" "fe_id later_effect = ''effect-2''"
    "frame_size example_frame = (400, 300)"
    "example_frame = \<lparr>frame_rotation = None, frame_size = (400, 300),
                      frame_x = Some 0, frame_y = Some 0\<rparr>"
    by (simp_all add: example_effect_def later_effect_def example_frame_def)
  from group_gesture_patch[OF h1 h2 h3 h4 h5 h6 h7 h8] a
  have first: "\<exists>el'. out_notes (handleMouseUp model_helpers True example_state ?ev) =
             [(ITEM_UPDATED, ElementData (Some el'))] \<and>
          el_frameEffects el' = Some
            [example_effect\<lparr>fe_props := \<lparr>fep_framePosition = Some ?p,
                                        fep_frameSize = (400, 300)\<rparr>\<rparr>,
             later_effect] \<and>
          el_frame el' = Some example_frame"
    by (auto simp: c d e)
  from group_gesture_patch[OF h1 h2 h3 h4 h5 h6' h7 h8'] b c(1)
  have second: "out_notes (handleMouseUp model_helpers True ?s0 ?ev) =
     [(ITEM_UPDATED, ElementData (Some (example_video\<lparr>el_frame := Some
         \<lparr>frame_rotation = Some 15, frame_size = (800, 900),
          frame_x = Some 960, frame_y = Some 540\<rparr>\<rparr>)))]"
    by (simp add: d e)
  from first second show ?thesis by blast
qed

section \<open>Properties of the projection\<close>

lemma example_state_built:
  "buildCanvas model_helpers True initial_state example_props =
     example_state\<lparr>elementMap := Map.empty, elementFrameMap := Map.empty\<rparr>"
  by (simp add: buildCanvas_def model_helpers_def initial_state_def example_props_def
      example_state_def example_canvas_def example_guide_def example_metadata_def
      computeMetadata_def frameRect_def Let_def)

lemma kinds_unrecognized:
  assumes "k \<notin> set recognized_kinds"
  shows "k \<noteq> ELEMENT_TYPES_VIDEO \<and> k \<noteq> ELEMENT_TYPES_IMAGE \<and> k \<noteq> ELEMENT_TYPES_RECT \<and>
         k \<noteq> ELEMENT_TYPES_CIRCLE \<and> k \<noteq> ELEMENT_TYPES_TEXT \<and> k \<noteq> ELEMENT_TYPES_CAPTION"
  using assms
  by (auto simp: recognized_kinds_def ELEMENT_TYPES_VIDEO_def ELEMENT_TYPES_IMAGE_def
      ELEMENT_TYPES_RECT_def ELEMENT_TYPES_CIRCLE_def ELEMENT_TYPES_TEXT_def
      ELEMENT_TYPES_CAPTION_def)

text \<open>
  C10. On an initialised canvas, adding an element whose type is none of video, image,
  rect, circle, text, caption and background calls no constructor: the canvas is the one
  before the call, reordered when \<open>reorder\<close> is absent or true and untouched otherwise,
  and the registry holds the element under its identifier.
\<close>

theorem unrecognized_kind:
  assumes cv: "twickCanvas s = Some canvas"
    and kind: "el_type el \<notin> set recognized_kinds"
  shows "((case reorder of None \<Rightarrow> True | Some b \<Rightarrow> b) \<longrightarrow>
            addElementToCanvas h s el i reorder t cp =
              (None, s\<lparr>elementMap := (elementMap s)(el_id el \<mapsto> el),
                       twickCanvas := Some (reorderElementsByZIndex h canvas)\<rparr>)) \<and>
         (\<not> (case reorder of None \<Rightarrow> True | Some b \<Rightarrow> b) \<longrightarrow>
            addElementToCanvas h s el i reorder t cp =
              (None, s\<lparr>elementMap := (elementMap s)(el_id el \<mapsto> el)\<rparr>))"
  using cv kinds_unrecognized[OF kind]
  by (simp add: addElementToCanvas_def switch_type_def Let_def)

theorem unrecognized_kind_witness:
  "addElementToCanvas model_helpers example_state example_sticker 2 None (Some 5) None =
     (None, example_state\<lparr>elementMap := (elementMap example_state)(''sticker-1'' \<mapsto> example_sticker),
                          twickCanvas := Some (model_reorder example_canvas)\<rparr>) \<and>
   addElementToCanvas model_helpers example_state example_sticker 2 (Some False) (Some 5) None =
     (None, example_state\<lparr>elementMap := (elementMap example_state)(''sticker-1'' \<mapsto> example_sticker)\<rparr>)"
proof -
  have h1: "twickCanvas example_state = Some example_canvas" by (rule example_lookup)
  have h2: "el_type example_sticker \<notin> set recognized_kinds"
    by (simp add: example_sticker_def recognized_kinds_def)
  have i: "el_id example_sticker = ''sticker-1''" by (simp add: example_sticker_def)
  have r: "reorderElementsByZIndex model_helpers = model_reorder" by (simp add: model_helpers_def)
  show ?thesis
    using unrecognized_kind[OF h1 h2, of None model_helpers 2 "Some 5" None]
      unrecognized_kind[OF h1 h2, of "Some False" model_helpers 2 "Some 5" None]
    by (simp add: i r)
qed

text \<open>
  C9, as amended. For a video element on an initialised canvas the constructor of the
  video object is called with the offset (time - start) * rate + props.time, where the
  seek time, the start and props.time count as 0 when absent and the playback rate counts
  as 1 when it is absent or 0.
\<close>

theorem video_snap_time:
  assumes cv: "twickCanvas s = Some canvas"
    and kind: "el_type el = ''video''"
  shows "switch_type h s canvas el i t cp =
           scene_background h el i
             (awaited h
                (AddVideoElement el i (canvasMetadataRef s)
                   (getCurrentFrameEffect h el (case t of None \<Rightarrow> 0 | Some v \<Rightarrow> v))
                   (((case t of None \<Rightarrow> 0 | Some v \<Rightarrow> v) -
                     (case el_s el of None \<Rightarrow> 0 | Some v \<Rightarrow> v)) *
                    (case props_playbackRate (el_props el) of
                       None \<Rightarrow> 1 | Some v \<Rightarrow> if v = 0 then 1 else v) +
                    (case props_time (el_props el) of None \<Rightarrow> 0 | Some v \<Rightarrow> v)))
                (s\<lparr>elementFrameMap := (elementFrameMap s)
                     (el_id el := getCurrentFrameEffect h el (case t of None \<Rightarrow> 0 | Some v \<Rightarrow> v))\<rparr>)
                canvas)"
proof -
  have d0: "or_default a 0 = (case a of None \<Rightarrow> 0 | Some v \<Rightarrow> v)" for a
    by (simp add: or_default_def split: option.splits)
  have d1: "or_default a 1 = (case a of None \<Rightarrow> 1 | Some v \<Rightarrow> if v = 0 then 1 else v)" for a
    by (simp add: or_default_def)
  show ?thesis
    using kind by (simp add: switch_type_def ELEMENT_TYPES_VIDEO_def snapTime_def d0 d1 Let_def)
qed

theorem video_snap_time_witness:
  "switch_type model_helpers example_state example_canvas example_video 0 (Some 5) None =
     scene_background model_helpers example_video 0
       (awaited model_helpers
          (AddVideoElement example_video 0 example_metadata (Some example_effect) 4)
          (example_state\<lparr>elementFrameMap :=
             (elementFrameMap example_state)(''video-1'' \<mapsto> example_effect)\<rparr>)
          example_canvas)"
proof -
  have h1: "twickCanvas example_state = Some example_canvas" by (rule example_lookup)
  have h2: "el_type example_video = ''video''" by (simp add: example_video_def)
  have v: "el_id example_video = ''video-1''" "el_s example_video = Some 1"
    "props_playbackRate (el_props example_video) = Some 0"
    "props_time (el_props example_video) = None"
    by (simp_all add: example_video_def geometry_def)
  have f: "getCurrentFrameEffect model_helpers example_video 5 = Some example_effect"
    by (simp add: model_helpers_def resolveActiveVariant_def example_video_def example_effect_def)
  have m: "canvasMetadataRef example_state = example_metadata" by (simp add: example_state_def)
  show ?thesis
    using video_snap_time[OF h1 h2, of model_helpers 0 "Some 5" None]
    by (simp add: v f m)
qed

text \<open>
  C9, as the spec states it, fails for a playback rate of 0, which the code replaces by 1:
  at time 5 a video that starts at 1 is given the offset 4, where the spec's formula
  gives 0.
\<close>

theorem video_snap_time_counterexample:
  "snapTime (Some 5) example_video = 4 \<and> spec_snapTime (Some 5) example_video = 0"
  by (simp add: snapTime_def spec_snapTime_def or_default_def example_video_def geometry_def)

section \<open>Properties of the rebuild\<close>

declare settle_all.simps [simp del]

lemma pick_less: "pending \<noteq> [] \<Longrightarrow> pick schedule (length pending) < length pending"
  by (cases schedule) (simp_all add: pick_def)

lemma settle_all_Nil: "settle_all h schedule s [] = (s, [])"
  by (simp add: settle_all.simps)

lemma settle_all_step:
  assumes "pending \<noteq> []"
    and "resume h s (pending ! pick schedule (length pending)) = (e, s1, next)"
  shows "settle_all h schedule s pending =
           (fst (settle_all h (tl schedule) s1
                   (after_resume pending (pick schedule (length pending)) next)),
            (pending ! pick schedule (length pending), e) #
            snd (settle_all h (tl schedule) s1
                   (after_resume pending (pick schedule (length pending)) next)))"
  using assms by (subst settle_all.simps) (simp split: prod.splits)

lemma resume_canvas:
  assumes "twickCanvas s = Some c" and "resume h s call = (e, s1, next)"
  shows "twickCanvas s1 = Some (snd (addElement h call c)) \<and> e = fst (addElement h call c)"
  using assms
  by (auto simp: resume_def awaited_def split: prod.splits option.splits)

lemma follow_up_element: "follow_up call m = Some n \<Longrightarrow> call_element n = call_element call"
  by (cases call) (auto split: if_splits)

lemma resume_next:
  assumes "resume h s call = (e, s1, Some n)"
  shows "call_element n = call_element call"
  using assms
  by (auto simp: resume_def follow_up_element split: prod.splits option.splits)

lemma resume_other:
  assumes "resume h s call = (e, s1, next)" and "el_id (call_element call) \<noteq> k"
  shows "elementMap s1 k = elementMap s k"
  using assms
  by (auto simp: resume_def awaited_def split: prod.splits option.splits)

lemma resume_same:
  assumes "resume h s call = (e, s1, next)"
  shows "elementMap s1 (el_id (call_element call)) = elementMap s (el_id (call_element call)) \<or>
         elementMap s1 (el_id (call_element call)) = Some (call_element call)"
  using assms
  by (auto simp: resume_def awaited_def split: prod.splits option.splits)

lemma resume_done:
  assumes "twickCanvas s = Some c" and "resume h s call = (None, s1, None)"
  shows "elementMap s1 (el_id (call_element call)) = Some (call_element call)"
  using assms
  by (auto simp: resume_def awaited_def split: prod.splits option.splits)

lemma after_resume_keeps:
  assumes "k < length pending" and "x \<in> set pending"
  shows "x = pending ! k \<or> x \<in> set (after_resume pending k next)"
proof -
  from assms(2) obtain i where i: "i < length pending" "pending ! i = x"
    by (auto simp: in_set_conv_nth)
  show ?thesis
  proof (cases "i = k")
    case True
    with i show ?thesis by simp
  next
    case False
    have "x \<in> set (take k pending) \<or> x \<in> set (drop (Suc k) pending)"
    proof (cases "i < k")
      case True
      then have "take k pending ! i = x" using i by simp
      moreover have "i < length (take k pending)" using True i by simp
      ultimately show ?thesis by (metis nth_mem)
    next
      case False
      with \<open>i \<noteq> k\<close> have gt: "Suc k \<le> i" by simp
      then have "drop (Suc k) pending ! (i - Suc k) = x" using i by simp
      moreover have "i - Suc k < length (drop (Suc k) pending)" using gt i by simp
      ultimately show ?thesis by (metis nth_mem)
    qed
    moreover have "x \<in> set (pending[k := y])" for y
      using i False assms(1) by (metis length_list_update nth_list_update_neq nth_mem)
    ultimately show ?thesis by (cases "next") (auto simp: after_resume_def)
  qed
qed

lemma after_resume_from:
  assumes "x \<in> set (after_resume pending k next)"
  shows "x \<in> set pending \<or> next = Some x"
proof (cases "next")
  case None
  then show ?thesis using assms by (auto simp: after_resume_def dest: in_set_takeD in_set_dropD)
next
  case (Some y)
  then have "x \<in> set (pending[k := y])" using assms by (simp add: after_resume_def)
  then have "x \<in> insert y (set pending)" using set_update_subset_insert by fastforce
  then show ?thesis using Some by auto
qed

text \<open>The canvas after the resumptions is the canvas before them after the constructor
  calls that settled, in the order they settled.\<close>

lemma settle_all_canvas:
  "twickCanvas s = Some c \<Longrightarrow>
   twickCanvas (fst (settle_all h schedule s pending)) =
     Some (apply_calls h c (map fst (snd (settle_all h schedule s pending))))"
proof (induction h schedule s pending arbitrary: c rule: settle_all.induct)
  case (1 h schedule s pending)
  show ?case
  proof (cases "pending = []")
    case True
    then show ?thesis using "1.prems" by (simp add: settle_all_Nil apply_calls_def)
  next
    case False
    let ?k = "pick schedule (length pending)"
    obtain e s1 "next" where r: "resume h s (pending ! ?k) = (e, s1, next)"
      by (cases "resume h s (pending ! ?k)") auto
    from resume_canvas[OF "1.prems" r]
    have c1: "twickCanvas s1 = Some (snd (addElement h (pending ! ?k) c))" by simp
    have ih: "twickCanvas (fst (settle_all h (tl schedule) s1 (after_resume pending ?k next))) =
                Some (apply_calls h (snd (addElement h (pending ! ?k) c))
                  (map fst (snd (settle_all h (tl schedule) s1 (after_resume pending ?k next)))))"
      using "1.IH"[OF False r[symmetric] refl c1] .
    show ?thesis
      unfolding settle_all_step[OF False r] using ih by (simp add: apply_calls_def)
  qed
qed

text \<open>Every callback that waits has its constructor call settled.\<close>

lemma settle_all_settles:
  "call \<in> set pending \<Longrightarrow> call \<in> set (map fst (snd (settle_all h schedule s pending)))"
proof (induction h schedule s pending rule: settle_all.induct)
  case (1 h schedule s pending)
  from "1.prems" have ne: "pending \<noteq> []" by auto
  let ?k = "pick schedule (length pending)"
  obtain e s1 "next" where r: "resume h s (pending ! ?k) = (e, s1, next)"
    by (cases "resume h s (pending ! ?k)") auto
  from after_resume_keeps[OF pick_less[OF ne] "1.prems", of schedule "next"]
  show ?case
  proof
    assume "call = pending ! ?k"
    then show ?thesis unfolding settle_all_step[OF ne r] by simp
  next
    assume "call \<in> set (after_resume pending ?k next)"
    then have "call \<in> set (map fst (snd (settle_all h (tl schedule) s1
                 (after_resume pending ?k next))))"
      using "1.IH"[OF ne r[symmetric] refl] by simp
    then show ?thesis unfolding settle_all_step[OF ne r] by simp
  qed
qed

text \<open>
  An element whose constructors raise nothing, and whose identifier no other waiting
  callback has, is in the registry when no callback waits any more, if it is there already
  or one of the callbacks is its own.
\<close>

lemma settle_all_registers:
  assumes "twickCanvas s \<noteq> None"
    and "\<forall>call \<in> set pending. el_id (call_element call) = el_id el \<longrightarrow> call_element call = el"
    and "elementMap s (el_id el) = Some el \<or> (\<exists>call \<in> set pending. call_element call = el)"
    and "\<forall>call canvas. call_element call = el \<longrightarrow> fst (addElement h call canvas) = None"
  shows "elementMap (fst (settle_all h schedule s pending)) (el_id el) = Some el"
  using assms
proof (induction h schedule s pending rule: settle_all.induct)
  case (1 h schedule s pending)
  show ?case
  proof (cases "pending = []")
    case True
    then show ?thesis using "1.prems"(3) by (simp add: settle_all_Nil)
  next
    case False
    let ?k = "pick schedule (length pending)"
    let ?c = "pending ! ?k"
    have k: "?k < length pending" using False by (rule pick_less)
    then have cin: "?c \<in> set pending" by simp
    obtain e s1 "next" where r: "resume h s ?c = (e, s1, next)"
      by (cases "resume h s ?c") auto
    from "1.prems"(1) obtain c where c: "twickCanvas s = Some c" by auto
    from resume_canvas[OF c r] have c1: "twickCanvas s1 \<noteq> None"
      and e: "e = fst (addElement h ?c c)" by simp_all
    have uniq: "\<forall>call \<in> set (after_resume pending ?k next).
                  el_id (call_element call) = el_id el \<longrightarrow> call_element call = el"
    proof (intro ballI impI)
      fix call assume a: "call \<in> set (after_resume pending ?k next)"
        and b: "el_id (call_element call) = el_id el"
      from after_resume_from[OF a] show "call_element call = el"
      proof
        assume "call \<in> set pending"
        then show ?thesis using "1.prems"(2) b by blast
      next
        assume "next = Some call"
        then have "call_element call = call_element ?c" using r resume_next by blast
        then show ?thesis using "1.prems"(2) cin b by metis
      qed
    qed
    have there: "elementMap s1 (el_id el) = Some el \<or>
                 (\<exists>call \<in> set (after_resume pending ?k next). call_element call = el)"
    proof (cases "call_element ?c = el")
      case True
      then have ok: "e = None" using e "1.prems"(4) by simp
      show ?thesis
      proof (cases "next")
        case None
        then show ?thesis using resume_done[OF c] r ok True by auto
      next
        case (Some n)
        have "call_element n = el" using r Some resume_next True by blast
        moreover have "n \<in> set (after_resume pending ?k next)"
          using Some k by (simp add: after_resume_def set_update_memI)
        ultimately show ?thesis by blast
      qed
    next
      case False
      then have other: "el_id (call_element ?c) \<noteq> el_id el"
        using "1.prems"(2) cin by blast
      from "1.prems"(3) show ?thesis
      proof
        assume "elementMap s (el_id el) = Some el"
        then show ?thesis using resume_other[OF r other] by simp
      next
        assume "\<exists>call \<in> set pending. call_element call = el"
        then obtain call where cl: "call \<in> set pending" "call_element call = el" by blast
        then have "call \<noteq> ?c" using False by auto
        then have "call \<in> set (after_resume pending ?k next)"
          using after_resume_keeps[OF k cl(1), of "next"] by simp
        then show ?thesis using cl(2) by blast
      qed
    qed
    have "elementMap (fst (settle_all h (tl schedule) s1 (after_resume pending ?k next))) (el_id el)
            = Some el"
      using "1.IH"[OF False r[symmetric] refl c1 uniq there "1.prems"(4)] .
    then show ?thesis unfolding settle_all_step[OF False r] by simp
  qed
qed

lemma first_call_element:
  "first_call h m el i t cp = Some call \<Longrightarrow> call_element call = el"
  by (auto simp: first_call_def split: if_splits)

lemma start_refs:
  assumes "start h s el i t cp = (s1, w)"
  shows "twickCanvas s1 = twickCanvas s \<and> canvasMetadataRef s1 = canvasMetadataRef s"
  using assms by (auto simp: start_def Let_def split: option.splits)

lemma start_waits:
  assumes "twickCanvas s \<noteq> None" and "start h s el i t cp = (s1, w)"
  shows "w = first_call h (canvasMetadataRef s) el i t cp"
  using assms by (auto simp: start_def Let_def split: option.splits)

lemma start_other:
  assumes "start h s el i t cp = (s1, w)" and "el_id el \<noteq> k"
  shows "elementMap s1 k = elementMap s k"
  using assms by (auto simp: start_def Let_def split: option.splits)

lemma start_same:
  assumes "twickCanvas s \<noteq> None" and "start h s el i t cp = (s1, w)"
  shows "(w = None \<and> elementMap s1 (el_id el) = Some el) \<or>
         (\<exists>call. w = Some call \<and> call_element call = el \<and> elementMap s1 = elementMap s)"
proof -
  from assms(1) obtain c where c: "twickCanvas s = Some c" by auto
  show ?thesis
  proof (cases "first_call h (canvasMetadataRef s) el i t cp")
    case None
    then show ?thesis using assms(2) c by (auto simp: start_def Let_def)
  next
    case (Some call)
    then have ce: "call_element call = el" by (rule first_call_element)
    have w: "w = Some call"
      and s1: "s1 = (if el_type el = ELEMENT_TYPES_VIDEO
                     then s\<lparr>elementFrameMap := (elementFrameMap s)
                            (el_id el := getCurrentFrameEffect h el (or_default t 0))\<rparr>
                     else s)"
      using assms(2) c Some by (simp_all add: start_def Let_def)
    have "elementMap s1 = elementMap s" unfolding s1 by simp
    with ce w show ?thesis by blast
  qed
qed

lemma start_all_refs:
  "start_all h s es i t cp = (s2, pending) \<Longrightarrow>
   twickCanvas s2 = twickCanvas s \<and> canvasMetadataRef s2 = canvasMetadataRef s"
proof (induction h s es i t cp arbitrary: s2 pending rule: start_all.induct)
  case (3 h s element elements index seekTime captionProps)
  obtain s1 w where st: "start h s element index (Some seekTime) captionProps = (s1, w)"
    by (cases "start h s element index (Some seekTime) captionProps")
  obtain s2' p' where rest: "start_all h s1 elements (Suc index) seekTime captionProps = (s2', p')"
    by (cases "start_all h s1 elements (Suc index) seekTime captionProps")
  from "3.prems" st rest have s2: "s2 = s2'" by simp
  from "3.IH"[OF st[symmetric] rest] start_refs[OF st] s2 show ?case by simp
qed simp_all

text \<open>The \<^verbatim>\<open>map\<close> calls the constructor of every element that has one, whatever the other
  elements of the list are.\<close>

lemma start_all_calls:
  assumes "twickCanvas s \<noteq> None"
    and "j < length es" and "es ! j = Some el"
    and "first_call h (canvasMetadataRef s) el (i + j) (Some t) cp = Some call"
  shows "call \<in> set (snd (start_all h s es i t cp))"
  using assms
proof (induction h s es i t cp arbitrary: j rule: start_all.induct)
  case (1 h s index seekTime captionProps)
  then show ?case by simp
next
  case (2 h s elements index seekTime captionProps)
  then obtain j' where j: "j = Suc j'" by (cases j) auto
  with 2 show ?case by simp
next
  case (3 h s element elements index seekTime captionProps)
  obtain s1 w where st: "start h s element index (Some seekTime) captionProps = (s1, w)"
    by (cases "start h s element index (Some seekTime) captionProps")
  obtain s2 p where rest: "start_all h s1 elements (Suc index) seekTime captionProps = (s2, p)"
    by (cases "start_all h s1 elements (Suc index) seekTime captionProps")
  have res: "snd (start_all h s (Some element # elements) index seekTime captionProps) =
               (case w of None \<Rightarrow> [] | Some c \<Rightarrow> [c]) @ p"
    using st rest by simp
  show ?case
  proof (cases j)
    case 0
    then have "element = el" using "3.prems"(3) by simp
    then have "w = Some call"
      using start_waits[OF "3.prems"(1) st] "3.prems"(4) 0 by simp
    then show ?thesis unfolding res by simp
  next
    case (Suc j')
    have c1: "twickCanvas s1 \<noteq> None" and m1: "canvasMetadataRef s1 = canvasMetadataRef s"
      using start_refs[OF st] "3.prems"(1) by simp_all
    have "call \<in> set (snd (start_all h s1 elements (Suc index) seekTime captionProps))"
      using "3.IH"[OF st[symmetric], of j'] c1 m1 "3.prems" Suc by simp
    then show ?thesis unfolding res using rest by simp
  qed
qed

lemma start_all_from:
  "call \<in> set (snd (start_all h s es i t cp)) \<Longrightarrow> twickCanvas s \<noteq> None \<Longrightarrow>
   Some (call_element call) \<in> set es"
proof (induction h s es i t cp rule: start_all.induct)
  case (3 h s element elements index seekTime captionProps)
  obtain s1 w where st: "start h s element index (Some seekTime) captionProps = (s1, w)"
    by (cases "start h s element index (Some seekTime) captionProps")
  obtain s2 p where rest: "start_all h s1 elements (Suc index) seekTime captionProps = (s2, p)"
    by (cases "start_all h s1 elements (Suc index) seekTime captionProps")
  have c1: "twickCanvas s1 \<noteq> None" using start_refs[OF st] "3.prems"(2) by simp
  from "3.prems"(1) st rest have "w = Some call \<or> call \<in> set p"
    by (auto split: option.splits)
  then show ?case
  proof
    assume "w = Some call"
    then have "call_element call = element"
      using start_same[OF "3.prems"(2) st] by auto
    then show ?thesis by simp
  next
    assume "call \<in> set p"
    then show ?thesis using "3.IH"[OF st[symmetric]] rest c1 by simp
  qed
qed simp_all

lemma start_all_other:
  "\<forall>e'. Some e' \<in> set es \<longrightarrow> el_id e' \<noteq> k \<Longrightarrow>
   elementMap (fst (start_all h s es i t cp)) k = elementMap s k"
proof (induction h s es i t cp rule: start_all.induct)
  case (3 h s element elements index seekTime captionProps)
  obtain s1 w where st: "start h s element index (Some seekTime) captionProps = (s1, w)"
    by (cases "start h s element index (Some seekTime) captionProps")
  obtain s2 p where rest: "start_all h s1 elements (Suc index) seekTime captionProps = (s2, p)"
    by (cases "start_all h s1 elements (Suc index) seekTime captionProps")
  have "elementMap s1 k = elementMap s k" using start_other[OF st] "3.prems" by simp
  moreover have "elementMap s2 k = elementMap s1 k"
    using "3.IH"[OF st[symmetric]] rest "3.prems" by simp
  ultimately show ?case using st rest by simp
qed simp_all

text \<open>After the \<^verbatim>\<open>map\<close> an element of the list whose identifier is its own alone is in the
  registry or has a callback that waits.\<close>

lemma start_all_element:
  assumes "twickCanvas s \<noteq> None" and "Some el \<in> set es"
    and "\<forall>e'. Some e' \<in> set es \<longrightarrow> el_id e' = el_id el \<longrightarrow> e' = el"
  shows "elementMap (fst (start_all h s es i t cp)) (el_id el) = Some el \<or>
         (\<exists>call \<in> set (snd (start_all h s es i t cp)). call_element call = el)"
  using assms
proof (induction h s es i t cp rule: start_all.induct)
  case (1 h s index seekTime captionProps)
  then show ?case by simp
next
  case (2 h s elements index seekTime captionProps)
  then show ?case by simp
next
  case (3 h s element elements index seekTime captionProps)
  obtain s1 w where st: "start h s element index (Some seekTime) captionProps = (s1, w)"
    by (cases "start h s element index (Some seekTime) captionProps")
  obtain s2 p where rest: "start_all h s1 elements (Suc index) seekTime captionProps = (s2, p)"
    by (cases "start_all h s1 elements (Suc index) seekTime captionProps")
  have res: "start_all h s (Some element # elements) index seekTime captionProps =
               (s2, (case w of None \<Rightarrow> [] | Some c \<Rightarrow> [c]) @ p)"
    using st rest by simp
  have c1: "twickCanvas s1 \<noteq> None" using start_refs[OF st] "3.prems"(1) by simp
  have uniq: "\<forall>e'. Some e' \<in> set elements \<longrightarrow> el_id e' = el_id el \<longrightarrow> e' = el"
    using "3.prems"(3) by simp
  show ?case
  proof (cases "Some el \<in> set elements")
    case True
    from "3.IH"[OF st[symmetric] c1 True uniq] rest
    show ?thesis unfolding res by auto
  next
    case False
    then have eq: "element = el" using "3.prems"(2) by simp
    have later: "\<forall>e'. Some e' \<in> set elements \<longrightarrow> el_id e' \<noteq> el_id el"
      using uniq False by blast
    have keep: "elementMap s2 (el_id el) = elementMap s1 (el_id el)"
      using start_all_other[OF later, of h s1 "Suc index" seekTime captionProps] rest by simp
    from start_same[OF "3.prems"(1) st] eq keep
    show ?thesis unfolding res by auto
  qed
qed

text \<open>For a single element the \<^verbatim>\<open>map\<close> and the resumptions give what
  \<^const>\<open>addElementToCanvas\<close> gives when nothing runs between its awaits.\<close>

lemma resume_background:
  assumes "resume h s call = (e, s1, Some n)"
  shows "\<exists>el i m. n = AddBackgroundColor el i m"
  using assms
  by (cases call) (auto simp: resume_def split: prod.splits option.splits if_splits)

lemma resume_last:
  assumes "resume h s (AddBackgroundColor el i m) = (e, s1, next)"
  shows "next = None"
  using assms by (auto simp: resume_def split: prod.splits option.splits)

lemma settle_all_single:
  "fst (settle_all h schedule s [call]) =
     (case resume h s call of
        (e, s1, None) \<Rightarrow> s1
      | (e, s1, Some n) \<Rightarrow> fst (snd (resume h s1 n)))"
proof -
  have p: "pick sch (Suc 0) = 0" for sch by (cases sch) (simp_all add: pick_def)
  obtain e s1 "next" where r: "resume h s call = (e, s1, next)"
    by (cases "resume h s call") auto
  have r': "resume h s ([call] ! pick schedule (length [call])) = (e, s1, next)"
    using r p by simp
  have step: "fst (settle_all h schedule s [call]) =
                fst (settle_all h (tl schedule) s1 (after_resume [call] 0 next))"
    using settle_all_step[of "[call]" h s schedule e s1 "next", OF _ r'] p by simp
  show ?thesis
  proof (cases "next")
    case None
    then show ?thesis using step r by (simp add: after_resume_def settle_all_Nil)
  next
    case (Some n)
    obtain e2 s2 next2 where r2: "resume h s1 n = (e2, s2, next2)"
      by (cases "resume h s1 n") auto
    from resume_background r Some obtain el i m where n: "n = AddBackgroundColor el i m"
      by blast
    have last: "next2 = None" using r2 n resume_last by blast
    have r2': "resume h s1 ([n] ! pick (tl schedule) (length [n])) = (e2, s2, None)"
      using r2 last p by simp
    have "fst (settle_all h (tl schedule) s1 [n]) = s2"
      using settle_all_step[of "[n]" h s1 "tl schedule" e2 s2 None, OF _ r2'] p
      by (simp add: after_resume_def settle_all_Nil)
    then show ?thesis using step r Some r2 by (simp add: after_resume_def)
  qed
qed

lemma addElementToCanvas_no_reorder:
  assumes "twickCanvas s = Some canvas"
  shows "addElementToCanvas h s el i (Some False) t cp =
           (case switch_type h s canvas el i t cp of
              (Some e, s1) \<Rightarrow> (Some e, s1)
            | (None, s1) \<Rightarrow> (None, s1\<lparr>elementMap := (elementMap s1)(el_id el \<mapsto> el)\<rparr>))"
  using assms by (simp add: addElementToCanvas_def Let_def split: prod.splits option.splits)

lemma promise_all_single:
  assumes cv: "twickCanvas s = Some canvas"
  shows "fst (promise_all h schedule s [Some el] t cp) =
           snd (addElementToCanvas h s el 0 (Some False) (Some t) cp)"
proof -
  let ?m = "canvasMetadataRef s"
  note seq = addElementToCanvas_no_reorder[OF cv]
  have media: "fst (settle_all h schedule s' [call]) =
      snd (case scene_background h el 0 (awaited h call s' canvas) of
             (Some e, s1) \<Rightarrow> (Some e, s1)
           | (None, s1) \<Rightarrow> (None, s1\<lparr>elementMap := (elementMap s1)(el_id el \<mapsto> el)\<rparr>))"
    if "twickCanvas s' = Some canvas"
      and "call = AddImageElement el 0 m \<or> call = AddVideoElement el 0 m cfe st"
    for s' call m cfe st
    using that
    by (auto simp: settle_all_single resume_def scene_background_def awaited_def
        split: prod.splits option.splits)
  have plain: "fst (settle_all h schedule s [call]) =
      snd (case awaited h call s canvas of
             (Some e, s1) \<Rightarrow> (Some e, s1)
           | (None, s1) \<Rightarrow> (None, s1\<lparr>elementMap := (elementMap s1)(el_id el \<mapsto> el)\<rparr>))"
    if "follow_up call ?m = None" and "call_element call = el"
      and "\<And>m'. follow_up call m' = None" for call
    using that cv
    by (auto simp: settle_all_single resume_def awaited_def split: prod.splits option.splits)
  show ?thesis
  proof (cases "el_type el = ELEMENT_TYPES_VIDEO")
    case True
    let ?s1 = "s\<lparr>elementFrameMap := (elementFrameMap s)
                 (el_id el := getCurrentFrameEffect h el (or_default (Some t) 0))\<rparr>"
    have "twickCanvas ?s1 = Some canvas" using cv by simp
    from media[OF this, of _ ?m] True cv show ?thesis
      by (simp add: promise_all_def start_def first_call_def seq switch_type_def Let_def)
  next
    case nv: False
    show ?thesis
    proof (cases "el_type el = ELEMENT_TYPES_IMAGE")
      case True
      from media[OF cv, of _ ?m] True nv cv show ?thesis
        by (simp add: promise_all_def start_def first_call_def seq switch_type_def Let_def)
    next
      case ni: False
      show ?thesis
      proof (cases "el_type el = ELEMENT_TYPES_RECT \<or> el_type el = ELEMENT_TYPES_CIRCLE \<or>
                    el_type el = ELEMENT_TYPES_TEXT \<or> el_type el = ELEMENT_TYPES_CAPTION")
        case True
        then obtain call where fc: "first_call h ?m el 0 (Some t) cp = Some call"
          and nf: "\<And>m'. follow_up call m' = None"
          and sw: "switch_type h s canvas el 0 (Some t) cp = awaited h call s canvas"
          using nv ni
          by (auto simp: first_call_def switch_type_def ELEMENT_TYPES_VIDEO_def
              ELEMENT_TYPES_IMAGE_def ELEMENT_TYPES_RECT_def ELEMENT_TYPES_CIRCLE_def
              ELEMENT_TYPES_TEXT_def ELEMENT_TYPES_CAPTION_def)
        have ce: "call_element call = el" using fc by (rule first_call_element)
        from plain[OF nf ce nf] fc sw nv cv show ?thesis
          by (simp add: promise_all_def start_def seq Let_def)
      next
        case False
        then show ?thesis using nv ni cv
          by (simp add: promise_all_def start_def first_call_def settle_all_Nil
              seq switch_type_def Let_def)
      qed
    qed
  qed
qed

text \<open>
  C7. A rebuild with \<open>cleanAndAdd\<close> on a canvas that has a context and a background
  colour, with a helper that clears every object: whatever the order in which the
  constructors settle, the elements are projected onto a canvas without objects that has
  the colour of before, and the reorder follows. When the reorder keeps an empty canvas
  empty and its colour, an empty list leaves no object and the colour of before.
\<close>

theorem clean_rebuild:
  assumes cv: "twickCanvas s = Some canvas"
    and ctx: "getCanvasContext h canvas"
    and col: "fc_backgroundColor canvas \<noteq> []"
    and clr: "\<forall>c. fc_objects (clearCanvas h c) = []"
  shows "\<exists>c0. fc_objects c0 = [] \<and> fc_backgroundColor c0 = fc_backgroundColor canvas \<and>
           setCanvasElements h schedule s elements t cp (Some True) =
             (fst (promise_all h schedule (s\<lparr>twickCanvas := Some c0, captionPropsRef := cp\<rparr>)
                     elements (case t of None \<Rightarrow> 0 | Some v \<Rightarrow> v) cp))
             \<lparr>twickCanvas := map_option (reorderElementsByZIndex h)
                (twickCanvas (fst (promise_all h schedule
                   (s\<lparr>twickCanvas := Some c0, captionPropsRef := cp\<rparr>)
                   elements (case t of None \<Rightarrow> 0 | Some v \<Rightarrow> v) cp)))\<rparr> \<and>
           ((\<forall>c. fc_objects c = [] \<longrightarrow>
                 fc_objects (reorderElementsByZIndex h c) = [] \<and>
                 fc_backgroundColor (reorderElementsByZIndex h c) = fc_backgroundColor c) \<longrightarrow>
            (\<exists>c'. twickCanvas (setCanvasElements h schedule s [] t cp (Some True)) = Some c' \<and>
                  fc_objects c' = [] \<and> fc_backgroundColor c' = fc_backgroundColor canvas))"
proof -
  let ?c0 = "clean h canvas"
  have o: "fc_objects ?c0 = []" using col clr by (simp add: clean_def Let_def)
  have b: "fc_backgroundColor ?c0 = fc_backgroundColor canvas"
    using col by (simp add: clean_def Let_def)
  have run: "setCanvasElements h schedule s es t cp (Some True) =
             (fst (promise_all h schedule (s\<lparr>twickCanvas := Some ?c0, captionPropsRef := cp\<rparr>)
                     es (case t of None \<Rightarrow> 0 | Some v \<Rightarrow> v) cp))
             \<lparr>twickCanvas := map_option (reorderElementsByZIndex h)
                (twickCanvas (fst (promise_all h schedule
                   (s\<lparr>twickCanvas := Some ?c0, captionPropsRef := cp\<rparr>)
                   es (case t of None \<Rightarrow> 0 | Some v \<Rightarrow> v) cp)))\<rparr>" for es
    using cv ctx by (simp add: setCanvasElements_def Let_def)
  have empty: "twickCanvas (setCanvasElements h schedule s [] t cp (Some True)) =
                 Some (reorderElementsByZIndex h ?c0)"
    unfolding run by (simp add: promise_all_def settle_all_Nil)
  show ?thesis
    using o b run empty by (intro exI[of _ ?c0]) auto
qed

theorem clean_rebuild_witness:
  "fc_objects example_canvas \<noteq> [] \<and>
   (\<exists>c'. twickCanvas (setCanvasElements model_helpers [] example_state [] None None (Some True)) =
            Some c' \<and>
          fc_objects c' = [] \<and> fc_backgroundColor c' = ''#000000'')"
proof -
  have h1: "twickCanvas example_state = Some example_canvas" by (rule example_lookup)
  have h2: "getCanvasContext model_helpers example_canvas"
    by (simp add: model_helpers_def example_canvas_def)
  have h3: "fc_backgroundColor example_canvas \<noteq> []" by (simp add: example_canvas_def)
  have h4: "\<forall>c. fc_objects (clearCanvas model_helpers c) = []" by (simp add: model_helpers_def)
  have h5: "\<forall>c. fc_objects c = [] \<longrightarrow>
              fc_objects (reorderElementsByZIndex model_helpers c) = [] \<and>
              fc_backgroundColor (reorderElementsByZIndex model_helpers c) = fc_backgroundColor c"
    by (simp add: model_helpers_def model_reorder_def)
  have b: "fc_backgroundColor example_canvas = ''#000000''" by (simp add: example_canvas_def)
  have g: "fc_objects example_canvas \<noteq> []" by (simp add: example_canvas_def)
  from clean_rebuild[OF h1 h2 h3 h4, of "[]" "[]" None None] h5
  have "\<exists>c'. twickCanvas (setCanvasElements model_helpers [] example_state [] None None (Some True)) =
            Some c' \<and>
          fc_objects c' = [] \<and> fc_backgroundColor c' = fc_backgroundColor example_canvas"
    by blast
  then show ?thesis using b g by simp
qed

text \<open>
  C8. In a rebuild on a canvas with a context, whatever the order in which the
  constructors settle and whatever exceptions the constructors of the other elements
  raise: the constructor of an element of the list, if its type has one, is called and
  settles; an element whose own constructors raise nothing, and whose identifier no
  different element of the list has, is in the registry afterwards; and the canvas of the
  result is the reorder of the canvas that all the settled constructor calls left.
\<close>

theorem rebuild_isolates_failures:
  assumes cv: "twickCanvas s = Some canvas"
    and ctx: "getCanvasContext h canvas"
    and j: "j < length elements" and ej: "elements ! j = Some e"
    and s2: "s2 = (if (case cl of None \<Rightarrow> False | Some b \<Rightarrow> b)
                   then s\<lparr>twickCanvas := Some (clean h canvas)\<rparr> else s)
                  \<lparr>captionPropsRef := cp\<rparr>"
    and settled: "settled = map fst (snd (promise_all h schedule s2 elements
                                            (case t of None \<Rightarrow> 0 | Some v \<Rightarrow> v) cp))"
  shows "(\<forall>call. first_call h (canvasMetadataRef s) e j
                   (Some (case t of None \<Rightarrow> 0 | Some v \<Rightarrow> v)) cp = Some call \<longrightarrow>
                 call \<in> set settled) \<and>
         ((\<forall>call c. call_element call = e \<longrightarrow> fst (addElement h call c) = None) \<and>
          (\<forall>e'. Some e' \<in> set elements \<longrightarrow> el_id e' = el_id e \<longrightarrow> e' = e) \<longrightarrow>
          elementMap (setCanvasElements h schedule s elements t cp cl) (el_id e) = Some e) \<and>
         (\<exists>c0. twickCanvas s2 = Some c0 \<and>
            twickCanvas (setCanvasElements h schedule s elements t cp cl) =
              Some (reorderElementsByZIndex h (apply_calls h c0 settled)))"
proof -
  let ?T = "case t of None \<Rightarrow> 0 | Some v \<Rightarrow> v"
  obtain s1 pending where st: "start_all h s2 elements 0 ?T cp = (s1, pending)"
    by (cases "start_all h s2 elements 0 ?T cp")
  let ?r = "settle_all h schedule s1 pending"
  have pa: "promise_all h schedule s2 elements ?T cp = ?r"
    using st by (simp add: promise_all_def)
  have run: "setCanvasElements h schedule s elements t cp cl =
               (fst ?r)\<lparr>twickCanvas := map_option (reorderElementsByZIndex h) (twickCanvas (fst ?r))\<rparr>"
    using cv ctx pa s2 by (simp add: setCanvasElements_def Let_def)
  have "twickCanvas s2 =
          Some (if (case cl of None \<Rightarrow> False | Some b \<Rightarrow> b) then clean h canvas else canvas)"
    using cv s2 by simp
  then obtain c0 where c0: "twickCanvas s2 = Some c0" by blast
  have m2: "canvasMetadataRef s2 = canvasMetadataRef s" using s2 by simp
  have refs1: "twickCanvas s1 = Some c0" using start_all_refs[OF st] c0 by simp
  have ein: "Some e \<in> set elements" using j ej by (metis nth_mem)
  have first: "\<forall>call. first_call h (canvasMetadataRef s) e j (Some ?T) cp = Some call \<longrightarrow>
                 call \<in> set settled"
  proof (intro allI impI)
    fix call assume fc: "first_call h (canvasMetadataRef s) e j (Some ?T) cp = Some call"
    have "call \<in> set (snd (start_all h s2 elements 0 ?T cp))"
      using start_all_calls[of s2 j elements e h 0 ?T cp call] c0 j ej fc m2 by simp
    then have "call \<in> set pending" using st by simp
    then show "call \<in> set settled"
      unfolding settled pa by (rule settle_all_settles)
  qed
  have second: "elementMap (setCanvasElements h schedule s elements t cp cl) (el_id e) = Some e"
    if ok: "\<forall>call c. call_element call = e \<longrightarrow> fst (addElement h call c) = None"
      and uniq: "\<forall>e'. Some e' \<in> set elements \<longrightarrow> el_id e' = el_id e \<longrightarrow> e' = e"
  proof -
    have there: "elementMap s1 (el_id e) = Some e \<or> (\<exists>call \<in> set pending. call_element call = e)"
      using start_all_element[of s2 e elements h 0 ?T cp] c0 ein uniq st by simp
    have own: "\<forall>call \<in> set pending. el_id (call_element call) = el_id e \<longrightarrow> call_element call = e"
    proof (intro ballI impI)
      fix call assume "call \<in> set pending" and same: "el_id (call_element call) = el_id e"
      then have "Some (call_element call) \<in> set elements"
        using start_all_from[of call h s2 elements 0 ?T cp] st c0 by simp
      then show "call_element call = e" using uniq same by blast
    qed
    have "elementMap (fst ?r) (el_id e) = Some e"
      using settle_all_registers[of s1 pending e h schedule] refs1 own there ok by simp
    then show ?thesis unfolding run by simp
  qed
  have third: "twickCanvas (setCanvasElements h schedule s elements t cp cl) =
                 Some (reorderElementsByZIndex h (apply_calls h c0 settled))"
    unfolding run settled pa using settle_all_canvas[OF refs1, of h schedule pending] by simp
  from first second third c0 show ?thesis by blast
qed

text \<open>The example scene rebuilt with a rectangle that lacks its width, an empty slot and a
  well-formed rectangle, the constructor of the latter settling first.\<close>

lemma example_rebuild:
  "snd (promise_all model_helpers [1] (example_state\<lparr>captionPropsRef := None\<rparr>)
          [Some malformed_rect, None, Some example_rect] 0 None) =
     [(AddRectElement example_rect 2 example_metadata, None),
      (AddRectElement malformed_rect 0 example_metadata, Some (Thrown ''InvalidElementData''))]"
proof -
  have st: "start_all model_helpers (example_state\<lparr>captionPropsRef := None\<rparr>)
              [Some malformed_rect, None, Some example_rect] 0 0 None =
            (example_state\<lparr>captionPropsRef := None\<rparr>,
             [AddRectElement malformed_rect 0 example_metadata,
              AddRectElement example_rect 2 example_metadata])"
    by (simp add: start_def first_call_def example_state_def malformed_rect_def example_rect_def
        ELEMENT_TYPES_VIDEO_def ELEMENT_TYPES_IMAGE_def ELEMENT_TYPES_RECT_def Let_def
        numeral_2_eq_2)
  have r1: "fst (resume model_helpers s (AddRectElement example_rect 2 example_metadata)) = None \<and>
            snd (snd (resume model_helpers s (AddRectElement example_rect 2 example_metadata))) = None"
    if "twickCanvas s \<noteq> None" for s
    using that
    by (auto simp: resume_def awaited_def model_helpers_def project_def example_rect_def
        geometry_def split: prod.splits)
  have r2: "fst (resume model_helpers s (AddRectElement malformed_rect 0 example_metadata)) =
              Some (Thrown ''InvalidElementData'') \<and>
            snd (snd (resume model_helpers s (AddRectElement malformed_rect 0 example_metadata))) = None"
    if "twickCanvas s \<noteq> None" for s
    using that
    by (auto simp: resume_def awaited_def model_helpers_def project_def malformed_rect_def
        geometry_def split: prod.splits)
  have keep: "twickCanvas (fst (snd (resume model_helpers s call))) \<noteq> None"
    if "twickCanvas s \<noteq> None" for s call
  proof -
    from that obtain c where c: "twickCanvas s = Some c" by auto
    obtain e s1 n where r: "resume model_helpers s call = (e, s1, n)"
      by (cases "resume model_helpers s call") auto
    from resume_canvas[OF c r] r show ?thesis by simp
  qed
  let ?s0 = "example_state\<lparr>captionPropsRef := None\<rparr>"
  let ?a = "AddRectElement malformed_rect 0 example_metadata"
  let ?b = "AddRectElement example_rect 2 example_metadata"
  have c0: "twickCanvas ?s0 \<noteq> None" by (simp add: example_state_def)
  have p1: "pick [1] (length [?a, ?b]) = 1" by (simp add: pick_def)
  have p2: "pick (tl [1]) (length [?a]) = 0" by (simp add: pick_def)
  obtain s1 where q1: "resume model_helpers ?s0 ([?a, ?b] ! pick [1] (length [?a, ?b])) =
                         (None, s1, None)"
    and c1: "twickCanvas s1 \<noteq> None"
    using r1[OF c0] keep[OF c0, of ?b] p1
    by (cases "resume model_helpers ?s0 ?b") auto
  obtain s2 where q2: "resume model_helpers s1 ([?a] ! pick (tl [1]) (length [?a])) =
                         (Some (Thrown ''InvalidElementData''), s2, None)"
    using r2[OF c1] p2 by (cases "resume model_helpers s1 ?a") auto
  have step2: "snd (settle_all model_helpers (tl [1]) s1 [?a]) =
                 [(?a, Some (Thrown ''InvalidElementData''))]"
    using settle_all_step[OF _ q2] p2 by (simp add: after_resume_def settle_all_Nil)
  have "snd (settle_all model_helpers [1] ?s0 [?a, ?b]) =
          [(?b, None), (?a, Some (Thrown ''InvalidElementData''))]"
    using settle_all_step[OF _ q1] p1 step2 by (simp add: after_resume_def)
  then show ?thesis using st by (simp add: promise_all_def)
qed

theorem rebuild_isolates_failures_witness:
  "AddRectElement example_rect 2 example_metadata \<in>
     set (map fst (snd (promise_all model_helpers [1] (example_state\<lparr>captionPropsRef := None\<rparr>)
                          [Some malformed_rect, None, Some example_rect] 0 None))) \<and>
   (AddRectElement malformed_rect 0 example_metadata, Some (Thrown ''InvalidElementData'')) \<in>
     set (snd (promise_all model_helpers [1] (example_state\<lparr>captionPropsRef := None\<rparr>)
                 [Some malformed_rect, None, Some example_rect] 0 None)) \<and>
   elementMap (setCanvasElements model_helpers [1] example_state
                 [Some malformed_rect, None, Some example_rect] None None None) ''rect-1'' =
     Some example_rect \<and>
   twickCanvas (setCanvasElements model_helpers [1] example_state
                  [Some malformed_rect, None, Some example_rect] None None None) =
     Some (model_reorder (apply_calls model_helpers example_canvas
             [AddRectElement example_rect 2 example_metadata,
              AddRectElement malformed_rect 0 example_metadata]))"
proof -
  let ?es = "[Some malformed_rect, None, Some example_rect]"
  let ?s2 = "example_state\<lparr>captionPropsRef := None\<rparr>"
  let ?log = "snd (promise_all model_helpers [1] ?s2 ?es 0 None)"
  have h1: "twickCanvas example_state = Some example_canvas" by (rule example_lookup)
  have h2: "getCanvasContext model_helpers example_canvas"
    by (simp add: model_helpers_def example_canvas_def)
  have h3: "2 < length ?es" by simp
  have h4: "?es ! 2 = Some example_rect" by simp
  have h5: "?s2 = (if (case None of None \<Rightarrow> False | Some b \<Rightarrow> b)
                   then example_state\<lparr>twickCanvas := Some (clean model_helpers example_canvas)\<rparr>
                   else example_state)\<lparr>captionPropsRef := None\<rparr>" by simp
  have h6: "map fst ?log = map fst (snd (promise_all model_helpers [1] ?s2 ?es
                                          (case None of None \<Rightarrow> 0 | Some v \<Rightarrow> v) None))"
    by simp
  have fc: "first_call model_helpers (canvasMetadataRef example_state) example_rect 2
              (Some (case None of None \<Rightarrow> 0 | Some v \<Rightarrow> v)) None =
            Some (AddRectElement example_rect 2 example_metadata)"
    by (simp add: first_call_def example_rect_def example_state_def ELEMENT_TYPES_VIDEO_def
        ELEMENT_TYPES_IMAGE_def ELEMENT_TYPES_RECT_def)
  have ok: "\<forall>call c. call_element call = example_rect \<longrightarrow>
              fst (addElement model_helpers call c) = None"
  proof (intro allI impI)
    fix call c assume "call_element call = example_rect"
    then show "fst (addElement model_helpers call c) = None"
      by (cases call)
        (simp_all add: model_helpers_def project_def example_rect_def geometry_def)
  qed
  have uniq: "\<forall>e'. Some e' \<in> set ?es \<longrightarrow> el_id e' = el_id example_rect \<longrightarrow> e' = example_rect"
    by (simp add: malformed_rect_def example_rect_def)
  have i: "el_id example_rect = ''rect-1''" by (simp add: example_rect_def)
  have c2: "twickCanvas ?s2 = Some example_canvas" by (simp add: example_lookup)
  have r: "reorderElementsByZIndex model_helpers = model_reorder" by (simp add: model_helpers_def)
  note inst = rebuild_isolates_failures[OF h1 h2 h3 h4 h5 h6]
  have a: "AddRectElement example_rect 2 example_metadata \<in> set (map fst ?log)"
    using inst fc by blast
  have b: "elementMap (setCanvasElements model_helpers [1] example_state ?es None None None)
             ''rect-1'' = Some example_rect"
    using inst ok uniq i by metis
  have c: "twickCanvas (setCanvasElements model_helpers [1] example_state ?es None None None) =
             Some (model_reorder (apply_calls model_helpers example_canvas (map fst ?log)))"
    using inst c2 r by auto
  have d: "(AddRectElement malformed_rect 0 example_metadata, Some (Thrown ''InvalidElementData''))
             \<in> set ?log"
    unfolding example_rebuild by simp
  have e: "map fst ?log = [AddRectElement example_rect 2 example_metadata,
                          AddRectElement malformed_rect 0 example_metadata]"
    unfolding example_rebuild by simp
  from a b c d show ?thesis unfolding e by simp
qed

text \<open>
  Two elements with one identifier: the rectangle waits for its constructor while the
  element of unknown kind after it is written to the registry, and the rectangle
  overwrites it when its constructor has settled.
\<close>

lemma duplicate_identifier:
  "elementMap (setCanvasElements model_helpers schedule example_state
                 [Some example_rect, Some (example_sticker\<lparr>el_id := ''rect-1''\<rparr>)]
                 None None None) ''rect-1'' = Some example_rect"
proof -
  let ?s2 = "example_state\<lparr>captionPropsRef := None\<rparr>"
  let ?dup = "example_sticker\<lparr>el_id := ''rect-1''\<rparr>"
  let ?s1 = "?s2\<lparr>elementMap := (elementMap ?s2)(''rect-1'' \<mapsto> ?dup)\<rparr>"
  let ?call = "AddRectElement example_rect 0 example_metadata"
  have st: "start_all model_helpers ?s2 [Some example_rect, Some ?dup] 0 0 None = (?s1, [?call])"
    by (simp add: start_def first_call_def example_state_def example_rect_def
        example_sticker_def ELEMENT_TYPES_VIDEO_def ELEMENT_TYPES_IMAGE_def
        ELEMENT_TYPES_RECT_def ELEMENT_TYPES_CIRCLE_def ELEMENT_TYPES_TEXT_def
        ELEMENT_TYPES_CAPTION_def Let_def)
  have before: "elementMap ?s1 ''rect-1'' = Some ?dup" by simp
  have cv: "twickCanvas ?s1 = Some example_canvas" by (simp add: example_lookup)
  have ok: "fst (addElement model_helpers ?call example_canvas) = None"
    by (simp add: model_helpers_def project_def example_rect_def geometry_def)
  have i: "el_id example_rect = ''rect-1''" by (simp add: example_rect_def)
  obtain e s' "next" where r: "resume model_helpers ?s1 ?call = (e, s', next)"
    by (cases "resume model_helpers ?s1 ?call") auto
  have e: "e = None" using resume_canvas[OF cv r] ok by simp
  have n: "next = None"
    using r cv by (auto simp: resume_def split: prod.splits option.splits)
  have fin: "resume model_helpers ?s1 ?call = (None, s', None)" using r e n by simp
  have "elementMap s' (el_id (call_element ?call)) = Some (call_element ?call)"
    by (rule resume_done[OF cv fin])
  then have "elementMap (fst (settle_all model_helpers schedule ?s1 [?call])) ''rect-1'' =
          Some example_rect"
    using r n i by (simp add: settle_all_single)
  then show ?thesis
    using st by (simp add: setCanvasElements_def promise_all_def example_lookup model_helpers_def
        example_canvas_def Let_def)
qed

section \<open>Properties of the canvas metadata\<close>

text \<open>After a change of the video size the scale factors do not depend on the frame scale
  the canvas was built with.\<close>

lemma frame_scale_forgotten:
  "map_option canvasMetadataRef
     (onVideoSizeChange (buildCanvas h b s (a\<lparr>bc_frameScale := f1\<rparr>)) (Some v)) =
   map_option canvasMetadataRef
     (onVideoSizeChange (buildCanvas h b s (a\<lparr>bc_frameScale := f2\<rparr>)) (Some v))"
  by (simp add: onVideoSizeChange_def buildCanvas_def Let_def split: prod.splits)

text \<open>A call of \<^const>\<open>buildCanvas\<close> with the canvas size of the last build and without
  \<open>forceBuild\<close> changes nothing, whatever video size it is given.\<close>

lemma build_guard_keeps_metadata:
  assumes "bc_forceBuild a = None \<or> bc_forceBuild a = Some False"
    and "dim_width (canvasResolutionRef s) = dim_width (bc_canvasSize a)"
    and "dim_height (canvasResolutionRef s) = dim_height (bc_canvasSize a)"
  shows "buildCanvas h b s a = s"
  using assms by (auto simp: buildCanvas_def)

text \<open>
  C2. The example canvas built with a frame scale of 9/10 has the scale factors 9/20.
  When the video size then changes to 1280 by 720, \<^const>\<open>onVideoSizeChange\<close> sets both
  to 3/4, the ratio of the sizes without the frame scale; building the canvas for that
  video size gives 27/40.
\<close>

theorem video_size_change_drops_frame_scale:
  "cm_scaleX (canvasMetadataRef
     (buildCanvas model_helpers True initial_state (example_props\<lparr>bc_frameScale := Some (9 / 10)\<rparr>))) =
     9 / 20 \<and>
   map_option (\<lambda>s. (cm_scaleX (canvasMetadataRef s), cm_scaleY (canvasMetadataRef s)))
     (onVideoSizeChange
        (buildCanvas model_helpers True initial_state (example_props\<lparr>bc_frameScale := Some (9 / 10)\<rparr>))
        (Some \<lparr>dim_width = 1280, dim_height = 720\<rparr>)) = Some (3 / 4, 3 / 4) \<and>
   cm_scaleX (canvasMetadataRef
     (buildCanvas model_helpers True initial_state
        (example_props\<lparr>bc_frameScale := Some (9 / 10),
                        bc_videoSize := \<lparr>dim_width = 1280, dim_height = 720\<rparr>\<rparr>))) = 27 / 40"
  by (simp add: onVideoSizeChange_def buildCanvas_def model_helpers_def initial_state_def
      example_props_def computeMetadata_def Let_def)

text \<open>
  C1. With the mapping as the spec describes it and metadata computed from a positive
  video size, a positive canvas size and a frame scale in (0, 1], a point taken to canvas
  space and back is the point itself. The numbers are reals, so the equality is exact.
\<close>

theorem position_round_trip:
  assumes "0 < dim_width videoSize" and "0 < dim_height videoSize"
    and "0 < dim_width canvasSize" and "0 < dim_height canvasSize"
    and "0 < frameScale" and "frameScale \<le> 1"
  shows "toVideoPosition
           (toCanvasPosition p (computeMetadata videoSize canvasSize frameScale previous))
           (computeMetadata videoSize canvasSize frameScale previous) = p"
  using assms by (simp add: toVideoPosition_def toCanvasPosition_def computeMetadata_def)

theorem position_round_trip_witness:
  "toCanvasPosition \<lparr>pos_x = 100, pos_y = 200\<rparr>
     (computeMetadata \<lparr>dim_width = 1920, dim_height = 1080\<rparr> \<lparr>dim_width = 960, dim_height = 540\<rparr>
        (9 / 10) example_metadata) = \<lparr>pos_x = 45, pos_y = 90\<rparr> \<and>
   toVideoPosition \<lparr>pos_x = 45, pos_y = 90\<rparr>
     (computeMetadata \<lparr>dim_width = 1920, dim_height = 1080\<rparr> \<lparr>dim_width = 960, dim_height = 540\<rparr>
        (9 / 10) example_metadata) = \<lparr>pos_x = 100, pos_y = 200\<rparr>"
proof -
  let ?v = "\<lparr>dim_width = 1920, dim_height = 1080\<rparr>"
  let ?c = "\<lparr>dim_width = 960, dim_height = 540\<rparr>"
  let ?m = "computeMetadata ?v ?c (9 / 10) example_metadata"
  have h: "0 < dim_width ?v" "0 < dim_height ?v" "0 < dim_width ?c" "0 < dim_height ?c"
    "(0::real) < 9 / 10" "(9 / 10 :: real) \<le> 1"
    by simp_all
  have fwd: "toCanvasPosition \<lparr>pos_x = 100, pos_y = 200\<rparr> ?m = \<lparr>pos_x = 45, pos_y = 90\<rparr>"
    by (simp add: toCanvasPosition_def computeMetadata_def)
  from position_round_trip[OF h, of "\<lparr>pos_x = 100, pos_y = 200\<rparr>" example_metadata] fwd
  show ?thesis by simp
qed

end
